theory Spec2Isabelle
  imports Complex_Main "HOL-Library.Multiset"
begin

section \<open>Data model\<close>

text \<open>
  The element type of an array. \<open>Float64\<close> stands for the types whose values float64
  holds exactly: the floating types up to 64 bits, the integers up to 32 bits, the
  booleans. \<open>Int64\<close> stands for the 64-bit integers, which float64 rounds above
  \<open>2^53\<close>; an array of that type holds whole numbers. Complex, string and object arrays
  are not modelled.
\<close>

datatype dtype = Float64 | Int64

text \<open>
  A feature file holds one 2-D numeric array of shape \<open>(sequence_length, feature_dim)\<close>.
  The model keeps \<open>shape[1]\<close> next to the rows, because an array of shape \<open>(0, d)\<close>
  still has a feature dimension. \<open>shape[0]\<close> is the number of rows. An array is well
  formed when every row has \<open>shape[1]\<close> entries.
\<close>

record array2d =
  ncols :: nat
  dtype :: dtype
  arows :: "real list list"

text \<open>A 1-D array: its element type and its entries.\<close>

type_synonym array1d = "dtype \<times> real list"

definition shape0 :: "array2d \<Rightarrow> nat" where
  "shape0 a = length (arows a)"

definition wf_array :: "array2d \<Rightarrow> bool" where
  "wf_array a = list_all (\<lambda>r. length r = ncols a) (arows a)"

text \<open>
  A manifest is a pandas data frame: its column names and its rows, each row a mapping
  from column name to cell. A cell is a string or a number.
\<close>

datatype cell = Str string | Num real

type_synonym row = "string \<rightharpoonup> cell"

record dataframe =
  columns :: "string list"
  rows :: "row list"

text \<open>
  The file system as the loader sees it: what each existing path holds. \<open>Csv\<close> is a
  file that \<open>pd.read_csv\<close> parses, with the data frame it yields; \<open>Npy\<close> is a file
  that \<open>np.load\<close> reads, with its array, which the data model takes to be 2-D;
  \<open>Directory\<close> is a directory; \<open>Other\<close> is any other file. A path outside the domain
  does not exist.
\<close>

datatype fs_entry = Csv dataframe | Npy array2d | Directory | Other

record filesystem =
  files :: "string \<rightharpoonup> fs_entry"

definition csv_files :: "filesystem \<Rightarrow> string \<rightharpoonup> dataframe" where
  "csv_files fs p = (case files fs p of Some (Csv df) \<Rightarrow> Some df | _ \<Rightarrow> None)"

definition npy_files :: "filesystem \<Rightarrow> string \<rightharpoonup> array2d" where
  "npy_files fs p = (case files fs p of Some (Npy a) \<Rightarrow> Some a | _ \<Rightarrow> None)"

text \<open>
  The exceptions the modelled code can raise. \<open>TargetLengthMissing\<close> is the
  \<open>ValueError\<close> of \<open>load_data\<close>, line 28; \<open>NotAnArrayFile\<close> is the error of
  \<open>np.load\<close> and \<open>NotACsvFile\<close> the error of \<open>pd.read_csv\<close> on a file of another
  kind; \<open>InhomogeneousShape\<close> is the error of \<open>np.array\<close> on vectors of different
  lengths; \<open>LibraryError\<close> is any exception of a scikit-learn call.
\<close>

datatype error =
    TargetLengthMissing
  | FileNotFoundError string
  | IsADirectoryError string
  | NotAnArrayFile string
  | NotACsvFile string
  | KeyError string
  | TypeError
  | IndexError
  | InhomogeneousShape
  | LibraryError string

section \<open>Effects: printed lines and exceptions\<close>

text \<open>
  A computation yields the lines it printed, in order, and either the exception that
  ended it or its value.
\<close>

type_synonym 'a io = "string list \<times> (error + 'a)"

definition return_io :: "'a \<Rightarrow> 'a io" where
  "return_io x = ([], Inr x)"

definition raise_io :: "error \<Rightarrow> 'a io" where
  "raise_io e = ([], Inl e)"

definition print_io :: "string \<Rightarrow> unit io" where
  "print_io s = ([s], Inr ())"

definition lift_io :: "error + 'a \<Rightarrow> 'a io" where
  "lift_io r = ([], r)"

definition bind_io :: "'a io \<Rightarrow> ('a \<Rightarrow> 'b io) \<Rightarrow> 'b io" where
  "bind_io m f =
     (case m of
        (out, Inl e) \<Rightarrow> (out, Inl e)
      | (out, Inr x) \<Rightarrow> (case f x of (out', r) \<Rightarrow> (out @ out', r)))"

section \<open>Library operations used by the loader\<close>

text \<open>\<open>os.path.basename\<close> (POSIX): everything after the last slash.\<close>

definition basename :: "string \<Rightarrow> string" where
  "basename p = rev (takeWhile (\<lambda>c. c \<noteq> CHR ''/'') (rev p))"

text \<open>\<open>os.path.join\<close> (POSIX) of two components.\<close>

definition path_join :: "string \<Rightarrow> string \<Rightarrow> string" where
  "path_join a b =
     (if b \<noteq> [] \<and> hd b = CHR ''/'' then b
      else if a = [] \<or> last a = CHR ''/'' then a @ b
      else a @ ''/'' @ b)"

text \<open>\<open>row[column]\<close>: a missing key raises.\<close>

definition row_get :: "row \<Rightarrow> string \<Rightarrow> cell io" where
  "row_get r c = (case r c of None \<Rightarrow> raise_io (KeyError c) | Some v \<Rightarrow> return_io v)"

text \<open>\<open>pd.read_csv\<close>: a path that holds no CSV file raises.\<close>

definition pd_read_csv :: "filesystem \<Rightarrow> string \<Rightarrow> dataframe io" where
  "pd_read_csv fs p =
     (case files fs p of
        None \<Rightarrow> raise_io (FileNotFoundError p)
      | Some (Csv df) \<Rightarrow> return_io df
      | Some Directory \<Rightarrow> raise_io (IsADirectoryError p)
      | Some _ \<Rightarrow> raise_io (NotACsvFile p))"

text \<open>\<open>os.path.exists\<close>: true of files and of directories.\<close>

definition os_path_exists :: "filesystem \<Rightarrow> string \<Rightarrow> bool" where
  "os_path_exists fs p = (files fs p \<noteq> None)"

text \<open>\<open>np.load\<close>: a path that holds no array file raises.\<close>

definition np_load :: "filesystem \<Rightarrow> string \<Rightarrow> array2d io" where
  "np_load fs p =
     (case files fs p of
        None \<Rightarrow> raise_io (FileNotFoundError p)
      | Some (Npy a) \<Rightarrow> return_io a
      | Some Directory \<Rightarrow> raise_io (IsADirectoryError p)
      | Some _ \<Rightarrow> raise_io (NotAnArrayFile p))"

text \<open>
  \<open>xs[:t]\<close> for a Python integer \<open>t\<close>: a negative stop counts from the end.
\<close>

definition py_slice_to :: "int \<Rightarrow> 'a list \<Rightarrow> 'a list" where
  "py_slice_to t xs = (if 0 \<le> t then take (nat t) xs else take (nat (int (length xs) + t)) xs)"

text \<open>The number of binary digits of a natural number.\<close>

function bit_length :: "nat \<Rightarrow> nat" where
  "bit_length n = (if n = 0 then 0 else Suc (bit_length (n div 2)))"
  by pat_completeness auto
termination
  by (relation "measure id") auto

declare bit_length.simps [simp del]

text \<open>
  The conversion of a 64-bit integer to float64: the nearest number with 53 significant
  binary digits, a tie going to the even significand.
\<close>

definition float64_of_int :: "int \<Rightarrow> int" where
  "float64_of_int n =
     (let m = nat \<bar>n\<bar>;
          d = 2 ^ (bit_length m - 53);
          q = m div d;
          r = m mod d;
          q' = (if d < 2 * r \<or> (2 * r = d \<and> odd q) then q + 1 else q)
      in sgn n * int (q' * d))"

text \<open>The value of an entry of element type \<open>t\<close> after conversion to float64.\<close>

definition astype_float64 :: "dtype \<Rightarrow> real \<Rightarrow> real" where
  "astype_float64 t x =
     (case t of Float64 \<Rightarrow> x | Int64 \<Rightarrow> real_of_int (float64_of_int \<lfloor>x\<rfloor>))"

text \<open>The value of an entry of element type \<open>s\<close> after conversion to element type \<open>t\<close>.\<close>

definition astype :: "dtype \<Rightarrow> dtype \<Rightarrow> real \<Rightarrow> real" where
  "astype s t x = (if t = Float64 then astype_float64 s x else x)"

text \<open>\<open>np.result_type\<close>: the common element type of two arrays, and of a list of arrays.\<close>

definition result_type :: "dtype \<Rightarrow> dtype \<Rightarrow> dtype" where
  "result_type s t = (if s = Int64 \<and> t = Int64 then Int64 else Float64)"

definition common_type :: "dtype list \<Rightarrow> dtype" where
  "common_type ts = (if list_all (\<lambda>t. t = Int64) ts \<and> ts \<noteq> [] then Int64 else Float64)"

text \<open>\<open>np.zeros\<close> of a shape: float64 zeros.\<close>

definition np_zeros :: "nat \<Rightarrow> nat \<Rightarrow> array2d" where
  "np_zeros k d = \<lparr>ncols = d, dtype = Float64, arows = replicate k (replicate d 0)\<rparr>"

text \<open>
  \<open>np.vstack\<close> of two arrays of one feature dimension: the rows of both, converted to
  the common element type.
\<close>

definition np_vstack :: "array2d \<Rightarrow> array2d \<Rightarrow> array2d" where
  "np_vstack a b =
     \<lparr>ncols = ncols a,
      dtype = result_type (dtype a) (dtype b),
      arows = map (map (astype (dtype a) (result_type (dtype a) (dtype b)))) (arows a)
              @ map (map (astype (dtype b) (result_type (dtype a) (dtype b)))) (arows b)\<rparr>"

text \<open>\<open>ndarray.flatten\<close>: the rows one after another, of the same element type.\<close>

definition flatten :: "array2d \<Rightarrow> array1d" where
  "flatten a = (dtype a, concat (arows a))"

text \<open>
  \<open>np.array\<close> on a list of 1-D arrays: a matrix when all have one length, their entries
  converted to the common element type; an error otherwise.
\<close>

definition np_array :: "array1d list \<Rightarrow> real list list io" where
  "np_array vs =
     (if list_all (\<lambda>v. length (snd v) = length (snd (hd vs))) vs
      then return_io (map (\<lambda>v. map (astype (fst v) (common_type (map fst vs))) (snd v)) vs)
      else raise_io InhomogeneousShape)"

section \<open>prepare\_data.py\<close>

text \<open>
  Lines 14 and 40: \<open>os.path.join(primary_feature_dir, os.path.basename(row[feature_column]))\<close>.
  \<open>basename\<close> of a cell that is not a string raises \<open>TypeError\<close>.
\<close>

definition feature_path_of :: "string \<Rightarrow> string \<Rightarrow> row \<Rightarrow> string io" where
  "feature_path_of primary_feature_dir feature_column r =
     bind_io (row_get r feature_column) (\<lambda>v.
       case v of
         Str p \<Rightarrow> return_io (path_join primary_feature_dir (basename p))
       | Num _ \<Rightarrow> raise_io TypeError)"

definition missing_warning :: "string \<Rightarrow> string" where
  "missing_warning feature_path =
     ''Warning: '' @ feature_path @ '' does not exist and will be skipped.''"

subsection \<open>get\_max\_sequence\_length\<close>

text \<open>
  Lines 14 to 19: the loop body, on the running maximum. A path that does not exist is
  skipped with a warning; a path that exists is loaded, which raises when it holds no
  array.
\<close>

definition max_length_step ::
  "filesystem \<Rightarrow> string \<Rightarrow> string \<Rightarrow> row \<Rightarrow> nat \<Rightarrow> nat io" where
  "max_length_step fs primary_feature_dir feature_column r max_length =
     bind_io (feature_path_of primary_feature_dir feature_column r) (\<lambda>feature_path.
       if \<not> os_path_exists fs feature_path
       then bind_io (print_io (missing_warning feature_path)) (\<lambda>_. return_io max_length)
       else bind_io (np_load fs feature_path) (\<lambda>feature_data.
              return_io (max max_length (shape0 feature_data))))"

fun max_length_loop ::
  "filesystem \<Rightarrow> string \<Rightarrow> string \<Rightarrow> row list \<Rightarrow> nat \<Rightarrow> nat io" where
  "max_length_loop fs d fc [] max_length = return_io max_length"
| "max_length_loop fs d fc (r # rest) max_length =
     bind_io (max_length_step fs d fc r max_length) (max_length_loop fs d fc rest)"

definition get_max_sequence_length :: "filesystem \<Rightarrow> string \<Rightarrow> string \<Rightarrow> string \<Rightarrow> nat io" where
  "get_max_sequence_length fs label_info_path primary_feature_dir feature_column =
     bind_io (pd_read_csv fs label_info_path) (\<lambda>df.
       max_length_loop fs primary_feature_dir feature_column (rows df) 0)"

subsection \<open>load\_data\<close>

text \<open>Lines 48 to 52: truncate or pad the array to \<open>target_length\<close> rows.\<close>

definition adjust_length :: "int \<Rightarrow> array2d \<Rightarrow> array2d" where
  "adjust_length target_length feature_data =
     (if int (shape0 feature_data) > target_length
      then feature_data\<lparr>arows := py_slice_to target_length (arows feature_data)\<rparr>
      else if int (shape0 feature_data) < target_length
      then np_vstack feature_data
             (np_zeros (nat (target_length - int (shape0 feature_data))) (ncols feature_data))
      else feature_data)"

definition default_weight_warning :: string where
  "default_weight_warning =
     ''Warning: '' @ [CHR 0x27] @ ''example_weight'' @ [CHR 0x27]
       @ '' column not found in data; setting default weight of 1 for all samples.''"

text \<open>Line 35: \<open>df[weight_column] = 1\<close>.\<close>

definition set_column :: "string \<Rightarrow> cell \<Rightarrow> dataframe \<Rightarrow> dataframe" where
  "set_column c v df =
     \<lparr>columns = (if c \<in> set (columns df) then columns df else columns df @ [c]),
      rows = map (\<lambda>r. r(c \<mapsto> v)) (rows df)\<rparr>"

text \<open>Lines 32 to 35.\<close>

definition default_weights :: "string \<Rightarrow> dataframe \<Rightarrow> dataframe io" where
  "default_weights weight_column df =
     (if weight_column \<notin> set (columns df)
      then bind_io (print_io default_weight_warning) (\<lambda>_.
             return_io (set_column weight_column (Num 1) df))
      else return_io df)"

type_synonym samples = "real list list \<times> cell list \<times> cell list"

text \<open>The three lists of line 37: 1-D arrays, labels, weights.\<close>

type_synonym lists = "array1d list \<times> cell list \<times> cell list"

text \<open>
  Lines 40 to 59: the loop body, on the three running lists. As in lines 14 to 19, a
  path that exists is loaded, which raises when it holds no array.
\<close>

definition load_step ::
  "filesystem \<Rightarrow> string \<Rightarrow> string \<Rightarrow> string \<Rightarrow> string \<Rightarrow> int \<Rightarrow> row \<Rightarrow> lists \<Rightarrow> lists io"
  where
  "load_step fs primary_feature_dir feature_column label_column weight_column target_length r acc =
     (case acc of (features, labels, sample_weights) \<Rightarrow>
        bind_io (feature_path_of primary_feature_dir feature_column r) (\<lambda>feature_path.
          if \<not> os_path_exists fs feature_path
          then bind_io (print_io (missing_warning feature_path)) (\<lambda>_. return_io acc)
          else
            bind_io (np_load fs feature_path) (\<lambda>feature_data.
            bind_io (row_get r label_column) (\<lambda>label.
            bind_io (row_get r weight_column) (\<lambda>weight.
              return_io (features @ [flatten (adjust_length target_length feature_data)],
                         labels @ [label],
                         sample_weights @ [weight]))))))"

fun load_loop ::
  "filesystem \<Rightarrow> string \<Rightarrow> string \<Rightarrow> string \<Rightarrow> string \<Rightarrow> int \<Rightarrow> row list \<Rightarrow> lists \<Rightarrow> lists io"
  where
  "load_loop fs d fc lc wc t [] acc = return_io acc"
| "load_loop fs d fc lc wc t (r # rest) acc =
     bind_io (load_step fs d fc lc wc t r acc) (load_loop fs d fc lc wc t rest)"

definition load_data ::
  "filesystem \<Rightarrow> string \<Rightarrow> string \<Rightarrow> string \<Rightarrow> string \<Rightarrow> int option \<Rightarrow> string \<Rightarrow> samples io"
  where
  "load_data fs label_info_path primary_feature_dir feature_column label_column target_length
       weight_column =
     (case target_length of
        None \<Rightarrow> raise_io TargetLengthMissing
      | Some t \<Rightarrow>
          bind_io (pd_read_csv fs label_info_path) (\<lambda>df.
          bind_io (default_weights weight_column df) (\<lambda>df.
          bind_io (load_loop fs primary_feature_dir feature_column label_column weight_column t
                     (rows df) ([], [], [])) (\<lambda>(features, labels, sample_weights).
          bind_io (np_array features) (\<lambda>X.
            return_io (X, labels, sample_weights))))))"

subsection \<open>load\_train\_data, load\_eval\_data, load\_test\_data\<close>

text \<open>
  \<open>StandardScaler\<close> belongs to scikit-learn, not to this repository, so the wrappers
  take its two operations as a parameter: \<open>fit_transform\<close> on a fresh scaler, which
  yields the fitted scaler and the scaled matrix, and \<open>transform\<close> of a fitted scaler,
  which yields the scaled matrix and leaves the scaler as it is. Either may raise.
\<close>

record 's scaler_lib =
  fit_transform :: "real list list \<Rightarrow> error + ('s \<times> real list list)"
  transform :: "'s \<Rightarrow> real list list \<Rightarrow> error + real list list"

definition load_train_data ::
  "'s scaler_lib \<Rightarrow> filesystem \<Rightarrow> string \<Rightarrow> string \<Rightarrow> string \<Rightarrow> string \<Rightarrow> int option
     \<Rightarrow> string \<Rightarrow> 's option \<Rightarrow> (real list list \<times> cell list \<times> cell list \<times> 's) io"
  where
  "load_train_data lib fs label_info_path primary_feature_dir feature_column label_column
       target_length weight_column scaler =
     bind_io (load_data fs label_info_path primary_feature_dir feature_column label_column
                target_length weight_column) (\<lambda>(X_train, y_train, sample_weights).
       case scaler of
         None \<Rightarrow>
           bind_io (lift_io (fit_transform lib X_train)) (\<lambda>(scaler, X_train).
             return_io (X_train, y_train, sample_weights, scaler))
       | Some scaler \<Rightarrow> return_io (X_train, y_train, sample_weights, scaler))"

text \<open>
  \<open>load_eval_data\<close> and \<open>load_test_data\<close> have no weight column parameter: they call
  \<open>load_data\<close> with its default, \<open>example_weight\<close>, and drop the weights.
\<close>

definition load_eval_data ::
  "'s scaler_lib \<Rightarrow> filesystem \<Rightarrow> string \<Rightarrow> string \<Rightarrow> string \<Rightarrow> string \<Rightarrow> int option
     \<Rightarrow> 's option \<Rightarrow> (real list list \<times> cell list) io"
  where
  "load_eval_data lib fs label_info_path primary_feature_dir feature_column label_column
       target_length scaler =
     bind_io (load_data fs label_info_path primary_feature_dir feature_column label_column
                target_length ''example_weight'') (\<lambda>(X_eval, y_eval, _).
       case scaler of
         Some s \<Rightarrow>
           bind_io (lift_io (transform lib s X_eval)) (\<lambda>X_eval. return_io (X_eval, y_eval))
       | None \<Rightarrow> return_io (X_eval, y_eval))"

definition load_test_data ::
  "'s scaler_lib \<Rightarrow> filesystem \<Rightarrow> string \<Rightarrow> string \<Rightarrow> string \<Rightarrow> string \<Rightarrow> int option
     \<Rightarrow> 's option \<Rightarrow> (real list list \<times> cell list) io"
  where
  "load_test_data lib fs label_info_path primary_feature_dir feature_column label_column
       target_length scaler =
     bind_io (load_data fs label_info_path primary_feature_dir feature_column label_column
                target_length ''example_weight'') (\<lambda>(X_test, y_test, _).
       case scaler of
         Some s \<Rightarrow>
           bind_io (lift_io (transform lib s X_test)) (\<lambda>X_test. return_io (X_test, y_test))
       | None \<Rightarrow> return_io (X_test, y_test))"

section \<open>RF\_train\_and\_evaluate.py\<close>

subsection \<open>evaluate\_model\_with\_threshold\<close>

text \<open>
  The classifier and the metric functions belong to scikit-learn and are parameters.
  \<open>predict_proba\<close> yields one row of class probabilities per sample.
\<close>

record ('m, 'r) sklearn =
  predict_proba :: "'m \<Rightarrow> real list list \<Rightarrow> error + array2d"
  accuracy_score :: "cell list \<Rightarrow> nat list \<Rightarrow> error + 'r"
  precision_score :: "cell list \<Rightarrow> nat list \<Rightarrow> error + 'r"
  recall_score :: "cell list \<Rightarrow> nat list \<Rightarrow> error + 'r"
  f1_score :: "cell list \<Rightarrow> nat list \<Rightarrow> error + 'r"

text \<open>Line 15, \<open>[:, 1]\<close>: column 1 of the probabilities; it must exist.\<close>

definition column_1 :: "array2d \<Rightarrow> real list io" where
  "column_1 a =
     (if ncols a \<le> 1 then raise_io IndexError else return_io (map (\<lambda>r. r ! 1) (arows a)))"

text \<open>Line 16: \<open>(y_scores > threshold).astype(int)\<close>.\<close>

definition apply_threshold :: "real list \<Rightarrow> real \<Rightarrow> nat list" where
  "apply_threshold y_scores threshold = map (\<lambda>s. if s > threshold then 1 else 0) y_scores"

text \<open>Lines 18 to 26, without the printed report, which formats floating-point numbers.\<close>

definition score_predictions ::
  "('m, 'r) sklearn \<Rightarrow> cell list \<Rightarrow> nat list \<Rightarrow> ('r \<times> 'r \<times> 'r \<times> 'r) io" where
  "score_predictions lib y_eval y_eval_pred =
     bind_io (lift_io (accuracy_score lib y_eval y_eval_pred)) (\<lambda>accuracy.
     bind_io (lift_io (precision_score lib y_eval y_eval_pred)) (\<lambda>precision.
     bind_io (lift_io (recall_score lib y_eval y_eval_pred)) (\<lambda>recall.
     bind_io (lift_io (f1_score lib y_eval y_eval_pred)) (\<lambda>f1.
       return_io (accuracy, precision, recall, f1)))))"

definition evaluate_model_with_threshold ::
  "('m, 'r) sklearn \<Rightarrow> 'm \<Rightarrow> real list list \<Rightarrow> cell list \<Rightarrow> real \<Rightarrow> ('r \<times> 'r \<times> 'r \<times> 'r) io"
  where
  "evaluate_model_with_threshold lib model X_eval y_eval threshold =
     bind_io (lift_io (predict_proba lib model X_eval)) (\<lambda>proba.
     bind_io (column_1 proba) (\<lambda>y_scores.
       score_predictions lib y_eval (apply_threshold y_scores threshold)))"

subsection \<open>main: computing the target length and loading the data (lines 31 to 50)\<close>

text \<open>\<open>str\<close> of a non-negative integer, for the f-string of line 35.\<close>

function str_nat :: "nat \<Rightarrow> string" where
  "str_nat n =
     (if n < 10 then [''0123456789'' ! n]
      else str_nat (n div 10) @ [''0123456789'' ! (n mod 10)])"
  by pat_completeness auto
termination
  by (relation "measure id") auto

declare str_nat.simps [simp del]

text \<open>
  Lines 31 to 35. \<open>get_max_sequence_length\<close> is called without a feature column, so
  with its default, \<open>feature_file\<close>.
\<close>

definition main_target_length :: "filesystem \<Rightarrow> nat io" where
  "main_target_length fs =
     bind_io (get_max_sequence_length fs ''data/metadata/label_downsampled.csv''
                ''data/downsampled_features'' ''feature_file'') (\<lambda>target_length.
     bind_io (print_io (''Using target length of '' @ str_nat target_length
                @ '' based on maximum sequence length in training data.'')) (\<lambda>_.
       return_io target_length))"

text \<open>
  Lines 38 to 50. The loaders are called without column names and, for the training
  data, without a scaler, so with their defaults.
\<close>

definition main_load ::
  "'s scaler_lib \<Rightarrow> filesystem \<Rightarrow>
     (nat \<times> real list list \<times> cell list \<times> cell list \<times> 's \<times> real list list \<times> cell list) io"
  where
  "main_load lib fs =
     bind_io (main_target_length fs) (\<lambda>target_length.
     bind_io (load_train_data lib fs ''data/metadata/train_downsample.csv''
                ''data/downsampled_features'' ''contextual_feature_file'' ''class''
                (Some (int target_length)) ''example_weight'' None)
       (\<lambda>(X_train, y_train, sample_weights_train, scaler).
     bind_io (load_eval_data lib fs ''data/metadata/eval_downsample.csv''
                ''data/downsampled_features'' ''contextual_feature_file'' ''class''
                (Some (int target_length)) (Some scaler)) (\<lambda>(X_eval, y_eval).
       return_io (target_length, X_train, y_train, sample_weights_train, scaler,
                  X_eval, y_eval))))"

subsection \<open>main: the feature importance ranking (lines 99 to 109)\<close>

text \<open>
  \<open>np.argsort\<close> is a parameter: with its default sort the order of equal values is not
  fixed. Its contract is that it returns a permutation of the indices along which the
  values ascend.
\<close>

definition argsort_ok :: "(real list \<Rightarrow> nat list) \<Rightarrow> real list \<Rightarrow> bool" where
  "argsort_ok argsort xs =
     (mset (argsort xs) = mset [0..<length xs] \<and> sorted (map (\<lambda>i. xs ! i) (argsort xs)))"

text \<open>Line 101: \<open>np.argsort(importances)[::-1][:20]\<close>.\<close>

definition top_indices :: "(real list \<Rightarrow> nat list) \<Rightarrow> real list \<Rightarrow> nat list" where
  "top_indices argsort importances = take 20 (rev (argsort importances))"

text \<open>
  Lines 103 and 104: the printed ranking, one entry per index: rank, index, importance.
\<close>

definition feature_ranking :: "real list \<Rightarrow> nat list \<Rightarrow> (nat \<times> nat \<times> real) list" where
  "feature_ranking importances indices =
     map (\<lambda>f. (f + 1, indices ! f, importances ! (indices ! f))) [0..<length indices]"

text \<open>Line 107: the rows handed to \<open>np.savetxt\<close>.\<close>

definition feature_importance :: "real list \<Rightarrow> nat list \<Rightarrow> (nat \<times> real) list" where
  "feature_importance importances indices =
     map (\<lambda>f. (indices ! f, importances ! (indices ! f))) [0..<length indices]"

text \<open>
  Lines 108 and 109: the file written, as its header and its rows. \<open>np.savetxt\<close> writes
  the header after a comment mark and each row as its two values with a comma between.
\<close>

definition feature_importance_csv ::
  "(real list \<Rightarrow> nat list) \<Rightarrow> real list \<Rightarrow> string \<times> (nat \<times> real) list" where
  "feature_importance_csv argsort importances =
     (''Feature,Importance'',
      feature_importance importances (top_indices argsort importances))"

section \<open>Vocabulary of the statements\<close>

text \<open>
  The array a manifest row resolves to: the array file at the path of lines 14 and 40,
  when the feature cell is a string and the path holds an array file.
\<close>

definition resolves :: "filesystem \<Rightarrow> string \<Rightarrow> string \<Rightarrow> row \<Rightarrow> array2d option" where
  "resolves fs d fc r =
     (case r fc of Some (Str q) \<Rightarrow> npy_files fs (path_join d (basename q)) | _ \<Rightarrow> None)"

text \<open>The path of lines 14 and 40 for a row whose feature cell is a string.\<close>

definition feature_path :: "string \<Rightarrow> string \<Rightarrow> row \<Rightarrow> string" where
  "feature_path d fc r = (case r fc of Some (Str q) \<Rightarrow> path_join d (basename q) | _ \<Rightarrow> [])"

text \<open>The rows that are loaded, and the rows that are skipped, in manifest order.\<close>

definition kept_rows :: "filesystem \<Rightarrow> string \<Rightarrow> string \<Rightarrow> row list \<Rightarrow> row list" where
  "kept_rows fs d fc rs = filter (\<lambda>r. resolves fs d fc r \<noteq> None) rs"

definition skipped_rows :: "filesystem \<Rightarrow> string \<Rightarrow> string \<Rightarrow> row list \<Rightarrow> row list" where
  "skipped_rows fs d fc rs = filter (\<lambda>r. resolves fs d fc r = None) rs"

text \<open>Every feature cell is a string.\<close>

definition names_files :: "string \<Rightarrow> row list \<Rightarrow> bool" where
  "names_files fc rs = list_all (\<lambda>r. case r fc of Some (Str q) \<Rightarrow> True | _ \<Rightarrow> False) rs"

text \<open>Every row has a cell in every column of the data frame.\<close>

definition complete_rows :: "dataframe \<Rightarrow> bool" where
  "complete_rows df = list_all (\<lambda>r. list_all (\<lambda>c. r c \<noteq> None) (columns df)) (rows df)"

text \<open>
  Every feature path of the manifest that exists holds an array file: none is a
  directory or a file of another kind.
\<close>

definition array_files :: "filesystem \<Rightarrow> string \<Rightarrow> string \<Rightarrow> row list \<Rightarrow> bool" where
  "array_files fs d fc rs =
     list_all (\<lambda>r. case files fs (feature_path d fc r) of
                      None \<Rightarrow> True | Some (Npy a) \<Rightarrow> True | Some _ \<Rightarrow> False) rs"

text \<open>
  Every entry of the array is a float64 value: conversion to float64 leaves it as it
  is. This holds of every array of element type \<open>Float64\<close>, and of an \<open>Int64\<close> array
  whose entries float64 represents.
\<close>

definition float64_exact :: "array2d \<Rightarrow> bool" where
  "float64_exact a = list_all (list_all (\<lambda>x. astype_float64 (dtype a) x = x)) (arows a)"

text \<open>The flattened, length-normalized 1-D array of a loaded row, and its entries.\<close>

definition flat_features :: "filesystem \<Rightarrow> string \<Rightarrow> string \<Rightarrow> int \<Rightarrow> row \<Rightarrow> array1d" where
  "flat_features fs d fc t r =
     (case resolves fs d fc r of
        Some a \<Rightarrow> flatten (adjust_length t a)
      | None \<Rightarrow> (Float64, []))"

definition feature_vector :: "filesystem \<Rightarrow> string \<Rightarrow> string \<Rightarrow> int \<Rightarrow> row \<Rightarrow> real list" where
  "feature_vector fs d fc t r = snd (flat_features fs d fc t r)"

text \<open>Column 1 of the class probabilities: the scores that line 16 compares.\<close>

definition positive_scores :: "array2d \<Rightarrow> real list" where
  "positive_scores proba = map (\<lambda>r. r ! 1) (arows proba)"

text \<open>Orders of the importances down the rows of the file.\<close>

definition strictly_decreasing :: "real list \<Rightarrow> bool" where
  "strictly_decreasing xs = sorted_wrt (\<lambda>a b. b < a) xs"

definition non_increasing :: "real list \<Rightarrow> bool" where
  "non_increasing xs = sorted_wrt (\<lambda>a b. b \<le> a) xs"

section \<open>Example inputs\<close>

definition sample_array :: array2d where
  "sample_array = \<lparr>ncols = 2, dtype = Float64, arows = [[1, 2], [3, 4], [5, 6]]\<rparr>"

definition short_array :: array2d where
  "short_array = \<lparr>ncols = 2, dtype = Float64, arows = [[7, 8]]\<rparr>"

text \<open>An array of 64-bit integers with the entry \<open>2^53 + 1\<close>.\<close>

definition wide_array :: array2d where
  "wide_array = \<lparr>ncols = 1, dtype = Int64, arows = [[9007199254740993]]\<rparr>"

definition lengths_manifest :: dataframe where
  "lengths_manifest =
     \<lparr>columns = [''feature_file''],
      rows = [[''feature_file'' \<mapsto> Str ''raw/a.npy''],
              [''feature_file'' \<mapsto> Str ''raw/b.npy''],
              [''feature_file'' \<mapsto> Str ''c.npy'']]\<rparr>"

text \<open>A manifest whose second feature cell has an empty base name.\<close>

definition directory_manifest :: dataframe where
  "directory_manifest =
     \<lparr>columns = [''feature_file'', ''class''],
      rows = [[''feature_file'' \<mapsto> Str ''raw/a.npy'', ''class'' \<mapsto> Num 1],
              [''feature_file'' \<mapsto> Str ''raw/'', ''class'' \<mapsto> Num 0]]\<rparr>"

definition label_manifest :: dataframe where
  "label_manifest =
     \<lparr>columns = [''feature_file''],
      rows = [[''feature_file'' \<mapsto> Str ''raw/s.npy'']]\<rparr>"

definition train_manifest :: dataframe where
  "train_manifest =
     \<lparr>columns = [''contextual_feature_file'', ''class'', ''example_weight''],
      rows = [[''contextual_feature_file'' \<mapsto> Str ''ctx/a.npy'', ''class'' \<mapsto> Num 1,
               ''example_weight'' \<mapsto> Num 2],
              [''contextual_feature_file'' \<mapsto> Str ''ctx/gone.npy'', ''class'' \<mapsto> Num 0,
               ''example_weight'' \<mapsto> Num 3]]\<rparr>"

definition eval_manifest :: dataframe where
  "eval_manifest =
     \<lparr>columns = [''contextual_feature_file'', ''class''],
      rows = [[''contextual_feature_file'' \<mapsto> Str ''ctx/s.npy'', ''class'' \<mapsto> Num 0],
              [''contextual_feature_file'' \<mapsto> Str ''ctx/gone.npy'', ''class'' \<mapsto> Num 0],
              [''contextual_feature_file'' \<mapsto> Str ''ctx/a.npy'', ''class'' \<mapsto> Num 1]]\<rparr>"

definition example_fs :: filesystem where
  "example_fs =
     \<lparr>files =
        [''lengths.csv'' \<mapsto> Csv lengths_manifest,
         ''directory.csv'' \<mapsto> Csv directory_manifest,
         ''data/metadata/label_downsampled.csv'' \<mapsto> Csv label_manifest,
         ''data/metadata/train_downsample.csv'' \<mapsto> Csv train_manifest,
         ''data/metadata/eval_downsample.csv'' \<mapsto> Csv eval_manifest,
         ''data/downsampled_features/'' \<mapsto> Directory,
         ''data/downsampled_features/a.npy'' \<mapsto> Npy sample_array,
         ''data/downsampled_features/b.npy'' \<mapsto> Npy (np_zeros 7 2),
         ''data/downsampled_features/c.npy'' \<mapsto> Npy (np_zeros 5 2),
         ''data/downsampled_features/s.npy'' \<mapsto> Npy short_array]\<rparr>"

text \<open>
  An instance of the scaler operations over the reals, after scikit-learn's
  \<open>StandardScaler\<close>: per column the mean and the population standard deviation, a
  standard deviation of zero replaced by one; an empty matrix is refused.
\<close>

definition column :: "real list list \<Rightarrow> nat \<Rightarrow> real list" where
  "column X j = map (\<lambda>r. r ! j) X"

definition mean :: "real list \<Rightarrow> real" where
  "mean xs = sum_list xs / real (length xs)"

definition scale_of :: "real list \<Rightarrow> real" where
  "scale_of xs =
     (let s = sqrt (mean (map (\<lambda>x. (x - mean xs)\<^sup>2) xs)) in if s = 0 then 1 else s)"

definition scale_with :: "real list \<times> real list \<Rightarrow> real list list \<Rightarrow> real list list" where
  "scale_with s X =
     map (\<lambda>r. map (\<lambda>j. (r ! j - fst s ! j) / snd s ! j) [0..<length r]) X"

definition standard_scaler :: "(real list \<times> real list) scaler_lib" where
  "standard_scaler =
     \<lparr>fit_transform = (\<lambda>X.
        if X = [] then Inl (LibraryError ''Found array with 0 sample(s)'')
        else let s = (map (\<lambda>j. mean (column X j)) [0..<length (hd X)],
                      map (\<lambda>j. scale_of (column X j)) [0..<length (hd X)])
             in Inr (s, scale_with s X)),
      transform = (\<lambda>s X.
        if X = [] then Inl (LibraryError ''Found array with 0 sample(s)'')
        else Inr (scale_with s X))\<rparr>"

text \<open>
  An instance of the classifier and the metrics: a model that answers with a fixed table
  of probabilities, and accuracy and binary precision, recall and F1 over the reals, a
  ratio with denominator zero taken as zero.
\<close>

definition count_where :: "(cell \<Rightarrow> nat \<Rightarrow> bool) \<Rightarrow> cell list \<Rightarrow> nat list \<Rightarrow> real" where
  "count_where P y_true y_pred = real (length (filter (\<lambda>(t, p). P t p) (zip y_true y_pred)))"

definition ratio :: "real \<Rightarrow> real \<Rightarrow> real" where
  "ratio a b = (if b = 0 then 0 else a / b)"

definition table_model :: "(array2d, real) sklearn" where
  "table_model =
     (let tp = count_where (\<lambda>t p. t = Num 1 \<and> p = 1);
          fp = count_where (\<lambda>t p. t \<noteq> Num 1 \<and> p = 1);
          fn = count_where (\<lambda>t p. t = Num 1 \<and> p \<noteq> 1);
          hit = count_where (\<lambda>t p. t = Num (real p))
      in \<lparr>predict_proba = (\<lambda>model X. Inr model),
          accuracy_score = (\<lambda>y p. Inr (ratio (hit y p) (real (length y)))),
          precision_score = (\<lambda>y p. Inr (ratio (tp y p) (tp y p + fp y p))),
          recall_score = (\<lambda>y p. Inr (ratio (tp y p) (tp y p + fn y p))),
          f1_score = (\<lambda>y p. Inr (ratio (2 * tp y p) (2 * tp y p + fp y p + fn y p)))\<rparr>)"

definition example_proba :: array2d where
  "example_proba =
     \<lparr>ncols = 2, dtype = Float64, arows = [[9/10, 1/10], [3/10, 7/10], [1/2, 1/2]]\<rparr>"

text \<open>An instance of \<open>np.argsort\<close>: the stable sort of the indices by their values.\<close>

definition argsort_stable :: "real list \<Rightarrow> nat list" where
  "argsort_stable xs = sort_key (\<lambda>i. xs ! i) [0..<length xs]"

section \<open>Properties of the effect combinators\<close>

lemma snd_bind_io_Inl:
  "snd (bind_io m f) = Inl e \<longleftrightarrow>
     snd m = Inl e \<or> (\<exists>x. snd m = Inr x \<and> snd (f x) = Inl e)"
  by (cases m) (auto simp: bind_io_def split: sum.splits prod.splits)

section \<open>Length normalization\<close>

lemma astype_float64_Float64 [simp]: "astype_float64 Float64 x = x"
  by (simp add: astype_float64_def)

lemma astype_to_Float64: "astype s Float64 = astype_float64 s"
  by (rule ext) (simp add: astype_def)

lemma float64_exact_Float64: "dtype a = Float64 \<Longrightarrow> float64_exact a"
  by (simp add: float64_exact_def list_all_iff)

lemma float64_exact_rows:
  "float64_exact a \<Longrightarrow> map (map (astype_float64 (dtype a))) (arows a) = arows a"
  by (auto simp: float64_exact_def list_all_iff intro!: map_idI)

lemma arows_np_vstack_zeros:
  "arows (np_vstack a (np_zeros k d))
     = map (map (astype_float64 (dtype a))) (arows a) @ replicate k (replicate d 0)"
  by (simp add: np_vstack_def np_zeros_def result_type_def astype_to_Float64)

lemma dtype_np_vstack_zeros: "dtype (np_vstack a (np_zeros k d)) = Float64"
  by (simp add: np_vstack_def np_zeros_def result_type_def)

lemma wf_adjust_length: "wf_array a \<Longrightarrow> wf_array (adjust_length t a)"
  by (auto simp: wf_array_def adjust_length_def py_slice_to_def np_vstack_def np_zeros_def
      list_all_iff dest: in_set_takeD)

lemma ncols_adjust_length: "ncols (adjust_length t a) = ncols a"
  by (simp add: adjust_length_def np_vstack_def)

lemma shape0_adjust_length: "shape0 (adjust_length (int n) a) = n"
  by (auto simp: adjust_length_def shape0_def py_slice_to_def np_vstack_def np_zeros_def)

lemma length_concat_uniform:
  "list_all (\<lambda>r. length r = d) xs \<Longrightarrow> length (concat xs) = length xs * d"
  by (induction xs) auto

lemma length_flatten: "wf_array a \<Longrightarrow> length (snd (flatten a)) = shape0 a * ncols a"
  by (simp add: wf_array_def flatten_def shape0_def length_concat_uniform)

lemma length_flatten_adjust:
  "wf_array a \<Longrightarrow> length (snd (flatten (adjust_length (int n) a))) = n * ncols a"
  using length_flatten [OF wf_adjust_length, of a "int n"]
  by (simp add: shape0_adjust_length ncols_adjust_length)

text \<open>
  Claim C1. For a well-formed 2-D array and a target length \<open>n\<close>, the normalization of
  lines 48 to 52 yields exactly \<open>n\<close> rows of the same feature dimension: a longer array
  keeps its first \<open>n\<close> rows in order; a shorter one gets \<open>n - sequence_length\<close> rows of
  zeros after its own rows, which are converted to float64 and so are the original rows
  when their entries are float64 values; one of length \<open>n\<close> is unchanged; flattened, the
  result has \<open>n * feature_dim\<close> entries.
\<close>

theorem load_data_normalization:
  assumes "wf_array a"
  shows "length (arows (adjust_length (int n) a)) = n
       \<and> ncols (adjust_length (int n) a) = ncols a
       \<and> (n < shape0 a \<longrightarrow> arows (adjust_length (int n) a) = take n (arows a))
       \<and> (shape0 a < n \<longrightarrow>
            arows (adjust_length (int n) a)
              = map (map (astype_float64 (dtype a))) (arows a)
                @ replicate (n - shape0 a) (replicate (ncols a) 0))
       \<and> (shape0 a < n \<longrightarrow> float64_exact a \<longrightarrow>
            arows (adjust_length (int n) a)
              = arows a @ replicate (n - shape0 a) (replicate (ncols a) 0))
       \<and> (shape0 a = n \<longrightarrow> adjust_length (int n) a = a)
       \<and> length (snd (flatten (adjust_length (int n) a))) = n * ncols a"
proof -
  have 1: "length (arows (adjust_length (int n) a)) = n"
    using shape0_adjust_length [of n a] by (simp add: shape0_def)
  have 3: "n < shape0 a \<longrightarrow> arows (adjust_length (int n) a) = take n (arows a)"
    by (simp add: adjust_length_def py_slice_to_def)
  have 4: "shape0 a < n \<longrightarrow> arows (adjust_length (int n) a)
              = map (map (astype_float64 (dtype a))) (arows a)
                @ replicate (n - shape0 a) (replicate (ncols a) 0)"
    by (auto simp: adjust_length_def arows_np_vstack_zeros nat_diff_distrib')
  have 5: "shape0 a < n \<longrightarrow> float64_exact a \<longrightarrow> arows (adjust_length (int n) a)
              = arows a @ replicate (n - shape0 a) (replicate (ncols a) 0)"
    using 4 by (simp add: float64_exact_rows)
  have 6: "shape0 a = n \<longrightarrow> adjust_length (int n) a = a"
    by (simp add: adjust_length_def)
  show ?thesis
    using 1 3 4 5 6 length_flatten_adjust [OF assms, of n] ncols_adjust_length [of "int n" a]
    by blast
qed

theorem load_data_normalization_witness:
  "wf_array sample_array
   \<and> float64_exact sample_array
   \<and> flatten (adjust_length 2 sample_array) = (Float64, [1, 2, 3, 4])
   \<and> flatten (adjust_length 4 sample_array) = (Float64, [1, 2, 3, 4, 5, 6, 0, 0])
   \<and> flatten (adjust_length 3 sample_array) = (Float64, [1, 2, 3, 4, 5, 6])
   \<and> length (snd (flatten (adjust_length (int 4) sample_array))) = 4 * ncols sample_array"
proof -
  have w: "wf_array sample_array" by (simp add: wf_array_def sample_array_def)
  have x: "float64_exact sample_array"
    by (simp add: float64_exact_Float64 sample_array_def)
  have e: "flatten (adjust_length 2 sample_array) = (Float64, [1, 2, 3, 4])"
    "flatten (adjust_length 4 sample_array) = (Float64, [1, 2, 3, 4, 5, 6, 0, 0])"
    "flatten (adjust_length 3 sample_array) = (Float64, [1, 2, 3, 4, 5, 6])"
    by (simp_all add: sample_array_def adjust_length_def shape0_def py_slice_to_def
        np_vstack_def np_zeros_def result_type_def astype_def flatten_def numeral_2_eq_2
        eval_nat_numeral)
  show ?thesis using w x e load_data_normalization [OF w, of 4] by simp
qed

text \<open>
  A negative target length is outside the claim: the slice of line 49 then counts from
  the end of the array.
\<close>

lemma adjust_length_negative:
  "adjust_length (- 1) sample_array
     = \<lparr>ncols = 2, dtype = Float64, arows = [[1, 2], [3, 4]]\<rparr>"
  by (simp add: sample_array_def adjust_length_def shape0_def py_slice_to_def)

text \<open>
  An array of 64-bit integers is converted when it is padded: \<open>2^53 + 1\<close> becomes
  \<open>2^53\<close>.
\<close>

lemma bit_length_wide: "bit_length 9007199254740993 = 54"
  by (simp add: bit_length.simps)

lemma float64_of_int_wide: "float64_of_int 9007199254740993 = 9007199254740992"
  by (simp add: float64_of_int_def bit_length_wide Let_def)

lemma adjust_length_int64:
  "adjust_length 2 wide_array
     = \<lparr>ncols = 1, dtype = Float64, arows = [[9007199254740992], [0]]\<rparr>"
  by (simp add: wide_array_def adjust_length_def shape0_def np_vstack_def np_zeros_def
      result_type_def astype_def astype_float64_def float64_of_int_wide)

section \<open>The missing target length\<close>

lemma row_get_not_missing: "snd (row_get r c) \<noteq> Inl TargetLengthMissing"
  by (simp add: row_get_def raise_io_def return_io_def split: option.splits)

lemma feature_path_of_not_missing: "snd (feature_path_of d fc r) \<noteq> Inl TargetLengthMissing"
  by (auto simp: feature_path_of_def snd_bind_io_Inl row_get_not_missing raise_io_def
      return_io_def split: cell.splits)

lemma np_load_not_missing: "snd (np_load fs p) \<noteq> Inl TargetLengthMissing"
  by (simp add: np_load_def raise_io_def return_io_def split: option.splits fs_entry.splits)

lemma pd_read_csv_not_missing: "snd (pd_read_csv fs p) \<noteq> Inl TargetLengthMissing"
  by (simp add: pd_read_csv_def raise_io_def return_io_def split: option.splits fs_entry.splits)

lemma load_step_not_missing: "snd (load_step fs d fc lc wc t r acc) \<noteq> Inl TargetLengthMissing"
  by (auto simp: load_step_def snd_bind_io_Inl row_get_not_missing feature_path_of_not_missing
      np_load_not_missing raise_io_def return_io_def print_io_def split: prod.splits)

lemma load_loop_not_missing: "snd (load_loop fs d fc lc wc t rs acc) \<noteq> Inl TargetLengthMissing"
  by (induction rs arbitrary: acc)
     (auto simp: snd_bind_io_Inl load_step_not_missing return_io_def)

lemma load_data_Some_not_missing:
  "snd (load_data fs p d fc lc (Some t) wc) \<noteq> Inl TargetLengthMissing"
  by (auto simp: load_data_def snd_bind_io_Inl load_loop_not_missing pd_read_csv_not_missing
      default_weights_def np_array_def raise_io_def return_io_def print_io_def
      split: prod.splits if_splits)

text \<open>
  Claim C6. Without a target length \<open>load_data\<close> raises its configuration error, having
  printed nothing and whatever the file system holds, so before the manifest or any
  feature file is read; with a target length it never raises that error.
\<close>

theorem load_data_target_length_required:
  "load_data fs p d fc lc None wc = ([], Inl TargetLengthMissing)
   \<and> (snd (load_data fs p d fc lc target_length wc) = Inl TargetLengthMissing
        \<longleftrightarrow> target_length = None)"
proof (cases target_length)
  case None
  then show ?thesis by (simp add: load_data_def raise_io_def)
next
  case (Some t)
  then show ?thesis
    using load_data_Some_not_missing [of fs p d fc lc t wc]
    by (simp add: load_data_def raise_io_def)
qed

section \<open>Evaluating the effect combinators\<close>

lemma bind_io_return [simp]: "bind_io (return_io x) f = f x"
  by (simp add: bind_io_def return_io_def split: prod.splits)

lemma bind_io_nil [simp]: "bind_io ([], Inr x) f = f x"
  by (simp add: bind_io_def split: prod.splits)

lemma bind_io_print: "bind_io (print_io s) f = (s # fst (f ()), snd (f ()))"
  by (simp add: bind_io_def print_io_def split: prod.splits)

lemma bind_io_raise [simp]: "bind_io (raise_io e) f = raise_io e"
  by (simp add: bind_io_def raise_io_def)

lemma bind_io_value: "m = (out, Inr x) \<Longrightarrow> bind_io m f = (out @ fst (f x), snd (f x))"
  by (simp add: bind_io_def split: prod.splits)

lemmas example_defs =
  example_fs_def lengths_manifest_def directory_manifest_def label_manifest_def
  train_manifest_def eval_manifest_def sample_array_def short_array_def

lemmas loader_defs =
  get_max_sequence_length_def pd_read_csv_def os_path_exists_def np_load_def
  max_length_step_def feature_path_of_def
  row_get_def basename_def path_join_def missing_warning_def shape0_def np_zeros_def
  load_data_def default_weights_def set_column_def load_step_def adjust_length_def
  py_slice_to_def np_vstack_def flatten_def np_array_def default_weight_warning_def
  astype_def result_type_def common_type_def csv_files_def npy_files_def

lemmas io_defs = bind_io_def return_io_def raise_io_def print_io_def lift_io_def

section \<open>The maximum sequence length\<close>

lemma feature_path_of_Str:
  "r fc = Some (Str q) \<Longrightarrow> feature_path_of d fc r = return_io (path_join d (basename q))"
  by (simp add: feature_path_of_def row_get_def)

lemma csv_files_read: "csv_files fs p = Some df \<Longrightarrow> pd_read_csv fs p = return_io df"
  by (simp add: csv_files_def pd_read_csv_def split: option.splits fs_entry.splits)

lemma array_files_Cons:
  "array_files fs d fc (r # rs) \<longleftrightarrow> array_files fs d fc [r] \<and> array_files fs d fc rs"
  by (simp add: array_files_def)

lemma missing_path:
  assumes "r fc = Some (Str q)" "array_files fs d fc [r]" "resolves fs d fc r = None"
  shows "\<not> os_path_exists fs (path_join d (basename q))"
  using assms
  by (auto simp: array_files_def feature_path_def resolves_def npy_files_def os_path_exists_def
      split: option.splits fs_entry.splits)

lemma found_path:
  assumes "r fc = Some (Str q)" "resolves fs d fc r = Some a"
  shows "os_path_exists fs (path_join d (basename q))"
    and "np_load fs (path_join d (basename q)) = return_io a"
  using assms
  by (auto simp: resolves_def npy_files_def os_path_exists_def np_load_def
      split: option.splits fs_entry.splits)

lemma max_length_step_missing:
  assumes "r fc = Some (Str q)" "array_files fs d fc [r]" "resolves fs d fc r = None"
  shows "max_length_step fs d fc r m = ([missing_warning (feature_path d fc r)], Inr m)"
  using assms(1) missing_path [OF assms]
  by (simp add: max_length_step_def feature_path_of_Str feature_path_def
      bind_io_print return_io_def)

lemma max_length_step_found:
  assumes "r fc = Some (Str q)" "resolves fs d fc r = Some a"
  shows "max_length_step fs d fc r m = ([], Inr (max m (shape0 a)))"
  using assms(1) found_path [OF assms]
  by (simp add: max_length_step_def feature_path_of_Str return_io_def)

lemma names_files_Cons:
  "names_files fc (r # rs) \<longleftrightarrow> (\<exists>q. r fc = Some (Str q)) \<and> names_files fc rs"
  by (auto simp: names_files_def split: option.splits cell.splits)

lemma max_length_loop_value:
  "names_files fc rs \<Longrightarrow> array_files fs d fc rs \<Longrightarrow>
   max_length_loop fs d fc rs m =
     (map (\<lambda>r. missing_warning (feature_path d fc r)) (skipped_rows fs d fc rs),
      Inr (fold max (map shape0 (List.map_filter (resolves fs d fc) rs)) m))"
proof (induction rs arbitrary: m)
  case Nil
  then show ?case by (simp add: return_io_def skipped_rows_def)
next
  case (Cons r rs)
  from Cons.prems obtain q where q: "r fc = Some (Str q)" and rest: "names_files fc rs"
    by (auto simp: names_files_Cons)
  from Cons.prems have here: "array_files fs d fc [r]" and there: "array_files fs d fc rs"
    by (simp_all add: array_files_Cons [of fs d fc r rs])
  show ?case
  proof (cases "resolves fs d fc r")
    case None
    show ?thesis
      using None Cons.IH [OF rest there, of m]
      by (simp add: max_length_step_missing [OF q here None] bind_io_def skipped_rows_def)
  next
    case (Some a)
    show ?thesis
      using Some Cons.IH [OF rest there, of "max m (shape0 a)"]
      by (simp add: max_length_step_found [OF q Some] bind_io_def skipped_rows_def max.commute)
  qed
qed

text \<open>
  Claim C3. On a manifest whose feature cells are strings and whose feature paths, where
  they exist, hold array files, \<open>get_max_sequence_length\<close> returns the maximum of
  \<open>shape[0]\<close> over the rows whose feature file exists, and of 0; it prints one warning
  for each row whose file is missing, and such a row does not contribute. When no row
  resolves to an existing file the result is 0.
\<close>

theorem get_max_sequence_length_max:
  assumes "csv_files fs p = Some df" and "names_files fc (rows df)"
    and "array_files fs d fc (rows df)"
  shows "get_max_sequence_length fs p d fc =
           (map (\<lambda>r. missing_warning (feature_path d fc r)) (skipped_rows fs d fc (rows df)),
            Inr (Max (set (0 # map shape0 (List.map_filter (resolves fs d fc) (rows df))))))
       \<and> (kept_rows fs d fc (rows df) = [] \<longrightarrow> snd (get_max_sequence_length fs p d fc) = Inr 0)"
proof -
  have v: "get_max_sequence_length fs p d fc =
           (map (\<lambda>r. missing_warning (feature_path d fc r)) (skipped_rows fs d fc (rows df)),
            Inr (fold max (map shape0 (List.map_filter (resolves fs d fc) (rows df))) 0))"
    using assms
    by (simp add: get_max_sequence_length_def csv_files_read max_length_loop_value)
  have m: "fold max xs (0::nat) = Max (set (0 # xs))" for xs
    by (simp only: Max.set_eq_fold)
  have e: "kept_rows fs d fc rs = [] \<Longrightarrow> List.map_filter (resolves fs d fc) rs = []" for rs
    by (induction rs) (auto simp: kept_rows_def split: if_splits)
  show ?thesis using v m e [of "rows df"] by simp
qed

text \<open>A manifest of arrays with 3, 7 and 5 rows: the result is 7.\<close>

theorem get_max_sequence_length_max_witness:
  "csv_files example_fs ''lengths.csv'' = Some lengths_manifest
   \<and> names_files ''feature_file'' (rows lengths_manifest)
   \<and> array_files example_fs ''data/downsampled_features'' ''feature_file''
        (rows lengths_manifest)
   \<and> map shape0 (List.map_filter
        (resolves example_fs ''data/downsampled_features'' ''feature_file'')
        (rows lengths_manifest)) = [3, 7, 5]
   \<and> get_max_sequence_length example_fs ''lengths.csv'' ''data/downsampled_features''
        ''feature_file'' = ([], Inr 7)"
proof -
  have a: "csv_files example_fs ''lengths.csv'' = Some lengths_manifest"
    by (simp add: example_fs_def csv_files_def)
  have b: "names_files ''feature_file'' (rows lengths_manifest)"
    by (simp add: names_files_def lengths_manifest_def)
  have f: "array_files example_fs ''data/downsampled_features'' ''feature_file''
        (rows lengths_manifest)"
    by (simp add: array_files_def example_defs feature_path_def basename_def path_join_def)
  have c: "map shape0 (List.map_filter
        (resolves example_fs ''data/downsampled_features'' ''feature_file'')
        (rows lengths_manifest)) = [3, 7, 5]"
    by (simp add: example_defs resolves_def npy_files_def basename_def path_join_def shape0_def
        np_zeros_def)
  have s: "skipped_rows example_fs ''data/downsampled_features'' ''feature_file''
        (rows lengths_manifest) = []"
    by (simp add: example_defs skipped_rows_def resolves_def npy_files_def basename_def
        path_join_def)
  show ?thesis
    using a b f c s get_max_sequence_length_max [OF a b f]
    by simp
qed

text \<open>
  A feature cell with an empty base name names the feature directory itself, which
  exists and holds no array: the call raises.
\<close>

lemma get_max_sequence_length_directory:
  "get_max_sequence_length example_fs ''directory.csv'' ''data/downsampled_features''
     ''feature_file'' = ([], Inl (IsADirectoryError ''data/downsampled_features/''))"
  by (simp add: example_defs loader_defs io_defs)

section \<open>Loading a manifest\<close>

lemma load_step_missing:
  assumes "r fc = Some (Str q)" "array_files fs d fc [r]" "resolves fs d fc r = None"
  shows "load_step fs d fc lc wc t r acc = ([missing_warning (feature_path d fc r)], Inr acc)"
  using assms(1) missing_path [OF assms]
  by (cases acc)
     (simp add: load_step_def feature_path_of_Str feature_path_def bind_io_print return_io_def)

lemma load_step_found:
  assumes "r fc = Some (Str q)" "resolves fs d fc r = Some a" "r lc = Some l" "r wc = Some w"
  shows "load_step fs d fc lc wc t r (F, L, W) =
           ([], Inr (F @ [flat_features fs d fc t r], L @ [l], W @ [w]))"
  using assms found_path [OF assms(1,2)]
  by (simp add: load_step_def feature_path_of_Str row_get_def flat_features_def return_io_def)

lemma load_loop_value:
  assumes "names_files fc rs"
    and "array_files fs d fc rs"
    and "\<forall>r\<in>set (kept_rows fs d fc rs). r lc \<noteq> None \<and> r wc \<noteq> None"
  shows "load_loop fs d fc lc wc t rs (F, L, W) =
           (map (\<lambda>r. missing_warning (feature_path d fc r)) (skipped_rows fs d fc rs),
            Inr (F @ map (flat_features fs d fc t) (kept_rows fs d fc rs),
                 L @ map (\<lambda>r. the (r lc)) (kept_rows fs d fc rs),
                 W @ map (\<lambda>r. the (r wc)) (kept_rows fs d fc rs)))"
  using assms
proof (induction rs arbitrary: F L W)
  case Nil
  then show ?case by (simp add: return_io_def skipped_rows_def kept_rows_def)
next
  case (Cons r rs)
  from Cons.prems(1) obtain q where q: "r fc = Some (Str q)" and rest: "names_files fc rs"
    by (auto simp: names_files_Cons)
  from Cons.prems(2) have here: "array_files fs d fc [r]" and there: "array_files fs d fc rs"
    by (simp_all add: array_files_Cons [of fs d fc r rs])
  show ?case
  proof (cases "resolves fs d fc r")
    case None
    have k: "\<forall>r\<in>set (kept_rows fs d fc rs). r lc \<noteq> None \<and> r wc \<noteq> None"
      using Cons.prems(3) None by (simp add: kept_rows_def)
    show ?thesis
      using None Cons.IH [OF rest there k, of F L W]
      by (simp add: load_step_missing [OF q here None] bind_io_def skipped_rows_def kept_rows_def)
  next
    case (Some a)
    have k: "\<forall>r\<in>set (kept_rows fs d fc rs). r lc \<noteq> None \<and> r wc \<noteq> None"
      using Cons.prems(3) Some by (simp add: kept_rows_def)
    from Cons.prems(3) Some obtain l w where lw: "r lc = Some l" "r wc = Some w"
      by (auto simp: kept_rows_def)
    show ?thesis
      using Some lw
        Cons.IH [OF rest there k, of "F @ [flat_features fs d fc t r]" "L @ [l]" "W @ [w]"]
      by (simp add: load_step_found [OF q Some lw] skipped_rows_def kept_rows_def)
  qed
qed

lemma np_array_exact:
  assumes "\<forall>v\<in>set vs. length (snd v) = m"
    and "\<forall>v\<in>set vs. list_all (\<lambda>x. astype_float64 (fst v) x = x) (snd v)"
  shows "np_array vs = return_io (map snd vs)"
proof -
  have u: "list_all (\<lambda>v. length (snd v) = length (snd (hd vs))) vs"
    using assms(1) by (cases vs) (auto simp: list_all_iff)
  have c: "map (astype (fst v) t) (snd v) = snd v" if "v \<in> set vs" for v t
    using assms(2) that by (auto simp: astype_def list_all_iff intro!: map_idI)
  have e: "map (\<lambda>v. map (astype (fst v) (common_type (map fst vs))) (snd v)) vs = map snd vs"
    by (rule map_cong) (simp_all add: c)
  show ?thesis
    unfolding np_array_def e using u by simp
qed

lemma exact_flatten_adjust:
  assumes "float64_exact a"
  shows "list_all (\<lambda>x. astype_float64 (fst (flatten (adjust_length t a))) x = x)
           (snd (flatten (adjust_length t a)))"
proof -
  have rows: "\<forall>r\<in>set (arows a). \<forall>x\<in>set r. astype_float64 (dtype a) x = x"
    using assms by (simp add: float64_exact_def list_all_iff)
  consider (cut) "int (shape0 a) > t"
    | (pad) "\<not> int (shape0 a) > t" "int (shape0 a) < t"
    | (same) "\<not> int (shape0 a) > t" "\<not> int (shape0 a) < t"
    by blast
  then show ?thesis
  proof cases
    case cut
    then show ?thesis
      using rows
      by (auto simp: adjust_length_def flatten_def list_all_iff py_slice_to_def
          dest: in_set_takeD)
  next
    case pad
    then show ?thesis
      by (simp add: adjust_length_def flatten_def dtype_np_vstack_zeros list_all_iff)
  next
    case same
    then show ?thesis
      using rows by (auto simp: adjust_length_def flatten_def list_all_iff)
  qed
qed

lemma flat_features_exact:
  assumes "resolves fs d fc r = Some a" "float64_exact a"
  shows "list_all (\<lambda>x. astype_float64 (fst (flat_features fs d fc t r)) x = x)
           (snd (flat_features fs d fc t r))"
  using assms by (simp add: flat_features_def exact_flatten_adjust)

lemma length_flat_features:
  assumes "resolves fs d fc r = Some a" "wf_array a" "ncols a = k"
  shows "length (snd (flat_features fs d fc (int n) r)) = n * k"
  using assms by (simp add: flat_features_def length_flatten_adjust)

lemma feature_vector_comp: "feature_vector fs d fc t = snd \<circ> flat_features fs d fc t"
  by (rule ext) (simp add: feature_vector_def)

lemma np_array_flat_features:
  assumes "\<forall>r\<in>set rs. \<forall>a. resolves fs d fc r = Some a
             \<longrightarrow> wf_array a \<and> ncols a = k \<and> float64_exact a"
  shows "np_array (map (flat_features fs d fc (int n)) (kept_rows fs d fc rs))
           = return_io (map (feature_vector fs d fc (int n)) (kept_rows fs d fc rs))"
proof -
  have len: "\<forall>v\<in>set (map (flat_features fs d fc (int n)) (kept_rows fs d fc rs)).
               length (snd v) = n * k"
    using assms by (auto simp: kept_rows_def length_flat_features)
  have ex: "\<forall>v\<in>set (map (flat_features fs d fc (int n)) (kept_rows fs d fc rs)).
               list_all (\<lambda>x. astype_float64 (fst v) x = x) (snd v)"
    using assms by (auto simp: kept_rows_def flat_features_exact)
  show ?thesis
    by (simp add: np_array_exact [OF len ex] feature_vector_comp)
qed

lemma resolves_upd: "wc \<noteq> fc \<Longrightarrow> resolves fs d fc (r(wc \<mapsto> v)) = resolves fs d fc r"
  by (simp add: resolves_def)

lemma feature_path_upd: "wc \<noteq> fc \<Longrightarrow> feature_path d fc (r(wc \<mapsto> v)) = feature_path d fc r"
  by (simp add: feature_path_def)

lemma flat_features_upd:
  "wc \<noteq> fc \<Longrightarrow> flat_features fs d fc t (r(wc \<mapsto> v)) = flat_features fs d fc t r"
  by (simp add: flat_features_def resolves_upd)

lemma array_files_upd:
  "wc \<noteq> fc \<Longrightarrow> array_files fs d fc (map (\<lambda>r. r(wc \<mapsto> v)) rs) = array_files fs d fc rs"
  by (simp add: array_files_def list_all_iff feature_path_upd)

lemma kept_rows_upd:
  "wc \<noteq> fc \<Longrightarrow> kept_rows fs d fc (map (\<lambda>r. r(wc \<mapsto> v)) rs)
     = map (\<lambda>r. r(wc \<mapsto> v)) (kept_rows fs d fc rs)"
  by (simp add: kept_rows_def filter_map comp_def resolves_upd)

lemma skipped_rows_upd:
  "wc \<noteq> fc \<Longrightarrow> skipped_rows fs d fc (map (\<lambda>r. r(wc \<mapsto> v)) rs)
     = map (\<lambda>r. r(wc \<mapsto> v)) (skipped_rows fs d fc rs)"
  by (simp add: skipped_rows_def filter_map comp_def resolves_upd)

lemma names_files_upd:
  "wc \<noteq> fc \<Longrightarrow> names_files fc (map (\<lambda>r. r(wc \<mapsto> v)) rs) = names_files fc rs"
  by (simp add: names_files_def list_all_iff)

lemma complete_rows_cell:
  "complete_rows df \<Longrightarrow> c \<in> set (columns df) \<Longrightarrow> r \<in> set (rows df) \<Longrightarrow> r c \<noteq> None"
  by (auto simp: complete_rows_def list_all_iff)

lemma load_data_with_weights:
  assumes csv: "csv_files fs p = Some df"
    and complete: "complete_rows df"
    and lc: "lc \<in> set (columns df)"
    and wc: "wc \<in> set (columns df)"
    and names: "names_files fc (rows df)"
    and files: "array_files fs d fc (rows df)"
    and dims: "\<forall>r\<in>set (rows df). \<forall>a. resolves fs d fc r = Some a
                 \<longrightarrow> wf_array a \<and> ncols a = k \<and> float64_exact a"
  shows "load_data fs p d fc lc (Some (int n)) wc =
           (map (\<lambda>r. missing_warning (feature_path d fc r)) (skipped_rows fs d fc (rows df)),
            Inr (map (feature_vector fs d fc (int n)) (kept_rows fs d fc (rows df)),
                 map (\<lambda>r. the (r lc)) (kept_rows fs d fc (rows df)),
                 map (\<lambda>r. the (r wc)) (kept_rows fs d fc (rows df))))"
proof -
  have cells: "\<forall>r\<in>set (kept_rows fs d fc (rows df)). r lc \<noteq> None \<and> r wc \<noteq> None"
    using complete_rows_cell [OF complete lc] complete_rows_cell [OF complete wc]
    by (simp add: kept_rows_def)
  show ?thesis
    using wc
    by (simp add: load_data_def csv_files_read [OF csv] default_weights_def
        load_loop_value [OF names files cells, where F = "[]" and L = "[]" and W = "[]",
          simplified]
        bind_io_def np_array_flat_features [OF dims] return_io_def)
qed

lemma load_data_without_weights:
  assumes csv: "csv_files fs p = Some df"
    and complete: "complete_rows df"
    and fc: "fc \<in> set (columns df)"
    and lc: "lc \<in> set (columns df)"
    and wc: "wc \<notin> set (columns df)"
    and names: "names_files fc (rows df)"
    and files: "array_files fs d fc (rows df)"
    and dims: "\<forall>r\<in>set (rows df). \<forall>a. resolves fs d fc r = Some a
                 \<longrightarrow> wf_array a \<and> ncols a = k \<and> float64_exact a"
  shows "load_data fs p d fc lc (Some (int n)) wc =
           (default_weight_warning
              # map (\<lambda>r. missing_warning (feature_path d fc r)) (skipped_rows fs d fc (rows df)),
            Inr (map (feature_vector fs d fc (int n)) (kept_rows fs d fc (rows df)),
                 map (\<lambda>r. the (r lc)) (kept_rows fs d fc (rows df)),
                 replicate (length (kept_rows fs d fc (rows df))) (Num 1)))"
proof -
  let ?u = "\<lambda>r::row. r(wc \<mapsto> Num 1)"
  let ?rs = "map ?u (rows df)"
  have ne: "wc \<noteq> fc" "wc \<noteq> lc" using fc lc wc by auto
  have names': "names_files fc ?rs" using names ne by (simp add: names_files_upd)
  have files': "array_files fs d fc ?rs" using files ne by (simp add: array_files_upd)
  have cells: "\<forall>r\<in>set (kept_rows fs d fc ?rs). r lc \<noteq> None \<and> r wc \<noteq> None"
    using complete_rows_cell [OF complete lc] ne
    by (auto simp: kept_rows_def)
  have loop: "load_loop fs d fc lc wc (int n) ?rs ([], [], []) =
           (map (\<lambda>r. missing_warning (feature_path d fc r)) (skipped_rows fs d fc (rows df)),
            Inr (map (flat_features fs d fc (int n)) (kept_rows fs d fc (rows df)),
                 map (\<lambda>r. the (r lc)) (kept_rows fs d fc (rows df)),
                 replicate (length (kept_rows fs d fc (rows df))) (Num 1)))"
    using ne
    by (simp add: load_loop_value [OF names' files' cells,
          where F = "[]" and L = "[]" and W = "[]", simplified]
        kept_rows_upd skipped_rows_upd comp_def feature_path_upd flat_features_upd
        map_replicate_const)
  show ?thesis
    using wc
    by (simp add: load_data_def csv_files_read [OF csv] default_weights_def set_column_def
        print_io_def loop bind_io_def np_array_flat_features [OF dims] return_io_def)
qed

text \<open>
  Claim C5. On a manifest with the feature and label columns, whose feature cells are
  strings, whose feature paths, where they exist, hold array files, and whose arrays
  are well formed, of one feature dimension and of float64 values, \<open>load_data\<close>
  returns; it prints one warning for each row whose feature file is missing and skips
  that row; the feature matrix, the labels and the weights are the images of the same
  list, the rows that are not skipped in manifest order, so they have one length and
  correspond position by position.
\<close>

theorem load_data_skips_missing:
  assumes csv: "csv_files fs p = Some df"
    and complete: "complete_rows df"
    and fc: "fc \<in> set (columns df)"
    and lc: "lc \<in> set (columns df)"
    and names: "names_files fc (rows df)"
    and files: "array_files fs d fc (rows df)"
    and dims: "\<forall>r\<in>set (rows df). \<forall>a. resolves fs d fc r = Some a
                 \<longrightarrow> wf_array a \<and> ncols a = k \<and> float64_exact a"
  shows "load_data fs p d fc lc (Some (int n)) wc =
           ((if wc \<in> set (columns df) then [] else [default_weight_warning])
              @ map (\<lambda>r. missing_warning (feature_path d fc r)) (skipped_rows fs d fc (rows df)),
            Inr (map (feature_vector fs d fc (int n)) (kept_rows fs d fc (rows df)),
                 map (\<lambda>r. the (r lc)) (kept_rows fs d fc (rows df)),
                 map (\<lambda>r. if wc \<in> set (columns df) then the (r wc) else Num 1)
                   (kept_rows fs d fc (rows df))))"
proof (cases "wc \<in> set (columns df)")
  case True
  then show ?thesis
    using load_data_with_weights [OF csv complete lc True names files dims] by simp
next
  case False
  then show ?thesis
    using load_data_without_weights [OF csv complete fc lc False names files dims]
    by (simp add: map_replicate_const)
qed

text \<open>
  A manifest with one existing and one missing feature file: one warning, one output row.
\<close>

theorem load_data_skips_missing_witness:
  "csv_files example_fs ''data/metadata/train_downsample.csv'' = Some train_manifest
   \<and> complete_rows train_manifest
   \<and> ''contextual_feature_file'' \<in> set (columns train_manifest)
   \<and> ''class'' \<in> set (columns train_manifest)
   \<and> names_files ''contextual_feature_file'' (rows train_manifest)
   \<and> array_files example_fs ''data/downsampled_features'' ''contextual_feature_file''
        (rows train_manifest)
   \<and> list_all (\<lambda>a. wf_array a \<and> ncols a = 2 \<and> float64_exact a) (List.map_filter
         (resolves example_fs ''data/downsampled_features'' ''contextual_feature_file'')
         (rows train_manifest))
   \<and> length (rows train_manifest) = 2
   \<and> load_data example_fs ''data/metadata/train_downsample.csv'' ''data/downsampled_features''
        ''contextual_feature_file'' ''class'' (Some 3) ''example_weight''
      = ([''Warning: data/downsampled_features/gone.npy does not exist and will be skipped.''],
         Inr ([[1, 2, 3, 4, 5, 6]], [Num 1], [Num 2]))"
proof -
  have a: "csv_files example_fs ''data/metadata/train_downsample.csv'' = Some train_manifest"
    by (simp add: example_fs_def csv_files_def)
  have b: "complete_rows train_manifest"
    by (simp add: complete_rows_def train_manifest_def)
  have c: "''contextual_feature_file'' \<in> set (columns train_manifest)"
    by (simp add: train_manifest_def)
  have d: "''class'' \<in> set (columns train_manifest)"
    by (simp add: train_manifest_def)
  have e: "names_files ''contextual_feature_file'' (rows train_manifest)"
    by (simp add: names_files_def train_manifest_def)
  have i: "array_files example_fs ''data/downsampled_features'' ''contextual_feature_file''
        (rows train_manifest)"
    by (simp add: array_files_def example_defs feature_path_def basename_def path_join_def)
  have f: "\<forall>r\<in>set (rows train_manifest). \<forall>a.
         resolves example_fs ''data/downsampled_features'' ''contextual_feature_file'' r = Some a
           \<longrightarrow> wf_array a \<and> ncols a = 2 \<and> float64_exact a"
    by (simp add: example_defs resolves_def npy_files_def basename_def path_join_def
        wf_array_def float64_exact_def)
  have g: "length (rows train_manifest) = 2"
    by (simp add: train_manifest_def)
  have h: "list_all (\<lambda>a. wf_array a \<and> ncols a = 2 \<and> float64_exact a) (List.map_filter
         (resolves example_fs ''data/downsampled_features'' ''contextual_feature_file'')
         (rows train_manifest))"
    by (simp add: example_defs resolves_def npy_files_def basename_def path_join_def
        wf_array_def float64_exact_def)
  have v: "load_data example_fs ''data/metadata/train_downsample.csv''
        ''data/downsampled_features'' ''contextual_feature_file'' ''class'' (Some 3)
        ''example_weight''
      = ([''Warning: data/downsampled_features/gone.npy does not exist and will be skipped.''],
         Inr ([[1, 2, 3, 4, 5, 6]], [Num 1], [Num 2]))"
    using load_data_skips_missing [OF a b c d e i f, of 3 "''example_weight''"]
    by (simp add: example_defs kept_rows_def skipped_rows_def resolves_def npy_files_def
        feature_path_def feature_vector_def flat_features_def basename_def path_join_def
        missing_warning_def adjust_length_def shape0_def flatten_def)
  show ?thesis using a b c d e i g h v by blast
qed

text \<open>
  With a feature cell that names the feature directory the call raises, after the row
  before it has been loaded.
\<close>

lemma load_data_directory:
  "load_data example_fs ''directory.csv'' ''data/downsampled_features'' ''feature_file''
     ''class'' (Some 3) ''example_weight''
   = ([default_weight_warning], Inl (IsADirectoryError ''data/downsampled_features/''))"
  by (simp add: example_defs loader_defs io_defs)

section \<open>The default weights\<close>

lemma missing_warning_neq: "missing_warning x \<noteq> default_weight_warning"
proof
  assume "missing_warning x = default_weight_warning"
  then have "take 2 (rev (missing_warning x)) = take 2 (rev default_weight_warning)"
    by simp
  then show False
    by (simp add: missing_warning_def default_weight_warning_def)
qed

lemma load_step_same:
  "os_path_exists fs' = os_path_exists fs \<Longrightarrow> np_load fs' = np_load fs \<Longrightarrow>
   load_step fs' d fc lc wc t r acc = load_step fs d fc lc wc t r acc"
  by (simp add: load_step_def cong: if_cong)

lemma load_loop_same:
  assumes "os_path_exists fs' = os_path_exists fs" and "np_load fs' = np_load fs"
  shows "load_loop fs' d fc lc wc t rs = load_loop fs d fc lc wc t rs"
proof (induction rs)
  case Nil
  show ?case by (rule ext) simp
next
  case (Cons r rs)
  show ?case by (rule ext) (simp add: load_step_same [OF assms] Cons.IH)
qed

lemma load_data_default_relation:
  assumes csv: "csv_files fs p = Some df" and wc: "wc \<notin> set (columns df)"
  shows "load_data fs p d fc lc (Some t) wc =
           (default_weight_warning
              # fst (load_data (fs\<lparr>files := (files fs)(p \<mapsto> Csv (set_column wc (Num 1) df))\<rparr>)
                      p d fc lc (Some t) wc),
            snd (load_data (fs\<lparr>files := (files fs)(p \<mapsto> Csv (set_column wc (Num 1) df))\<rparr>)
                   p d fc lc (Some t) wc))"
proof -
  let ?df = "set_column wc (Num 1) df"
  let ?fs = "fs\<lparr>files := (files fs)(p \<mapsto> Csv ?df)\<rparr>"
  let ?rest = "\<lambda>df. bind_io (load_loop fs d fc lc wc t (rows df) ([], [], []))
      (\<lambda>(features, labels, sample_weights).
         bind_io (np_array features) (\<lambda>X. return_io (X, labels, sample_weights)))"
  have here: "files fs p = Some (Csv df)"
    using csv by (simp add: csv_files_def split: option.splits fs_entry.splits)
  have ex: "os_path_exists ?fs = os_path_exists fs"
  proof (rule ext)
    fix q show "os_path_exists ?fs q = os_path_exists fs q"
      using here by (simp add: os_path_exists_def)
  qed
  have ld: "np_load ?fs = np_load fs"
  proof (rule ext)
    fix q show "np_load ?fs q = np_load fs q"
      using here by (simp add: np_load_def)
  qed
  have dw: "default_weights wc df = ([default_weight_warning], Inr ?df)"
    using wc by (simp add: default_weights_def bind_io_print return_io_def)
  have dw': "default_weights wc ?df = return_io ?df"
    using wc by (simp add: default_weights_def set_column_def)
  have l: "load_data fs p d fc lc (Some t) wc = bind_io (default_weights wc df) ?rest"
    by (simp add: load_data_def csv_files_read [OF csv])
  have r: "load_data ?fs p d fc lc (Some t) wc = ?rest ?df"
    by (simp add: load_data_def pd_read_csv_def dw' load_loop_same [OF ex ld])
  show ?thesis
    unfolding l r dw by (simp add: bind_io_def split: prod.splits)
qed

text \<open>
  Claim C7. On such a manifest without the weight column, every weight \<open>load_data\<close>
  returns is 1 and there are as many weights as loaded rows; the default is announced in
  exactly one printed line; and apart from that line the call prints and returns what it
  does on the same manifest with a weight column of ones.
\<close>

theorem load_data_default_weights:
  assumes csv: "csv_files fs p = Some df"
    and complete: "complete_rows df"
    and fc: "fc \<in> set (columns df)"
    and lc: "lc \<in> set (columns df)"
    and wc: "wc \<notin> set (columns df)"
    and names: "names_files fc (rows df)"
    and files: "array_files fs d fc (rows df)"
    and dims: "\<forall>r\<in>set (rows df). \<forall>a. resolves fs d fc r = Some a
                 \<longrightarrow> wf_array a \<and> ncols a = k \<and> float64_exact a"
  shows "load_data fs p d fc lc (Some (int n)) wc =
           (default_weight_warning
              # map (\<lambda>r. missing_warning (feature_path d fc r)) (skipped_rows fs d fc (rows df)),
            Inr (map (feature_vector fs d fc (int n)) (kept_rows fs d fc (rows df)),
                 map (\<lambda>r. the (r lc)) (kept_rows fs d fc (rows df)),
                 replicate (length (kept_rows fs d fc (rows df))) (Num 1)))
       \<and> count_list (fst (load_data fs p d fc lc (Some (int n)) wc)) default_weight_warning = 1
       \<and> load_data fs p d fc lc (Some (int n)) wc =
           (default_weight_warning
              # fst (load_data (fs\<lparr>files := (files fs)(p \<mapsto> Csv (set_column wc (Num 1) df))\<rparr>)
                      p d fc lc (Some (int n)) wc),
            snd (load_data (fs\<lparr>files := (files fs)(p \<mapsto> Csv (set_column wc (Num 1) df))\<rparr>)
                   p d fc lc (Some (int n)) wc))"
proof -
  note v = load_data_without_weights [OF csv complete fc lc wc names files dims, of n]
  have "default_weight_warning
          \<notin> set (map (\<lambda>r. missing_warning (feature_path d fc r)) (skipped_rows fs d fc (rows df)))"
    by (auto simp: missing_warning_neq [THEN not_sym])
  then have c: "count_list (fst (load_data fs p d fc lc (Some (int n)) wc))
      default_weight_warning = 1"
    unfolding v by (simp add: count_list_0_iff del: set_map)
  show ?thesis
    using v c load_data_default_relation [OF csv wc, of d fc lc "int n"] by blast
qed

text \<open>
  A manifest without weight column, with two existing feature files and a missing one.
\<close>

theorem load_data_default_weights_witness:
  "csv_files example_fs ''data/metadata/eval_downsample.csv'' = Some eval_manifest
   \<and> complete_rows eval_manifest
   \<and> ''contextual_feature_file'' \<in> set (columns eval_manifest)
   \<and> ''class'' \<in> set (columns eval_manifest)
   \<and> ''example_weight'' \<notin> set (columns eval_manifest)
   \<and> names_files ''contextual_feature_file'' (rows eval_manifest)
   \<and> array_files example_fs ''data/downsampled_features'' ''contextual_feature_file''
        (rows eval_manifest)
   \<and> list_all (\<lambda>a. wf_array a \<and> ncols a = 2 \<and> float64_exact a) (List.map_filter
         (resolves example_fs ''data/downsampled_features'' ''contextual_feature_file'')
         (rows eval_manifest))
   \<and> load_data example_fs ''data/metadata/eval_downsample.csv'' ''data/downsampled_features''
        ''contextual_feature_file'' ''class'' (Some 2) ''example_weight''
      = ([default_weight_warning,
          ''Warning: data/downsampled_features/gone.npy does not exist and will be skipped.''],
         Inr ([[7, 8, 0, 0], [1, 2, 3, 4]], [Num 0, Num 1], [Num 1, Num 1]))"
proof -
  have a: "csv_files example_fs ''data/metadata/eval_downsample.csv'' = Some eval_manifest"
    by (simp add: example_fs_def csv_files_def)
  have b: "complete_rows eval_manifest"
    by (simp add: complete_rows_def eval_manifest_def)
  have c: "''contextual_feature_file'' \<in> set (columns eval_manifest)"
    by (simp add: eval_manifest_def)
  have d: "''class'' \<in> set (columns eval_manifest)"
    by (simp add: eval_manifest_def)
  have w: "''example_weight'' \<notin> set (columns eval_manifest)"
    by (simp add: eval_manifest_def)
  have e: "names_files ''contextual_feature_file'' (rows eval_manifest)"
    by (simp add: names_files_def eval_manifest_def)
  have i: "array_files example_fs ''data/downsampled_features'' ''contextual_feature_file''
        (rows eval_manifest)"
    by (simp add: array_files_def example_defs feature_path_def basename_def path_join_def)
  have f: "\<forall>r\<in>set (rows eval_manifest). \<forall>a.
         resolves example_fs ''data/downsampled_features'' ''contextual_feature_file'' r = Some a
           \<longrightarrow> wf_array a \<and> ncols a = 2 \<and> float64_exact a"
    by (simp add: example_defs resolves_def npy_files_def basename_def path_join_def
        wf_array_def float64_exact_def)
  have h: "list_all (\<lambda>a. wf_array a \<and> ncols a = 2 \<and> float64_exact a) (List.map_filter
         (resolves example_fs ''data/downsampled_features'' ''contextual_feature_file'')
         (rows eval_manifest))"
    by (simp add: example_defs resolves_def npy_files_def basename_def path_join_def
        wf_array_def float64_exact_def)
  have k: "kept_rows example_fs ''data/downsampled_features'' ''contextual_feature_file''
        (rows eval_manifest) = [rows eval_manifest ! 0, rows eval_manifest ! 2]"
    by (simp add: example_defs kept_rows_def resolves_def npy_files_def basename_def
        path_join_def)
  have s: "skipped_rows example_fs ''data/downsampled_features'' ''contextual_feature_file''
        (rows eval_manifest) = [rows eval_manifest ! 1]"
    by (simp add: example_defs skipped_rows_def resolves_def npy_files_def basename_def
        path_join_def)
  have v: "load_data example_fs ''data/metadata/eval_downsample.csv''
        ''data/downsampled_features'' ''contextual_feature_file'' ''class'' (Some 2)
        ''example_weight''
      = ([default_weight_warning,
          ''Warning: data/downsampled_features/gone.npy does not exist and will be skipped.''],
         Inr ([[7, 8, 0, 0], [1, 2, 3, 4]], [Num 0, Num 1], [Num 1, Num 1]))"
    using load_data_default_weights [OF a b c d w e i f, of 2, THEN conjunct1]
    unfolding k s
    by (simp add: example_defs resolves_def npy_files_def feature_path_def
        feature_vector_def flat_features_def basename_def path_join_def missing_warning_def
        adjust_length_def shape0_def flatten_def py_slice_to_def np_vstack_def np_zeros_def
        result_type_def astype_def numeral_2_eq_2)
  show ?thesis using a b c d w e i h v by blast
qed

section \<open>The scaler in the wrappers\<close>

lemma scaler_example:
  "fit_transform standard_scaler [[1, 2, 3, 4]] = Inr (([1, 2, 3, 4], [1, 1, 1, 1]), [[0, 0, 0, 0]])"
  by (simp add: standard_scaler_def scale_with_def mean_def scale_of_def column_def
      upt_rec [of 0] upt_rec [of 1] upt_rec [of 2] upt_rec [of 3] upt_rec [of 4] eval_nat_numeral)

lemma scaler_example2:
  "transform standard_scaler ([1, 2, 3, 4], [1, 1, 1, 1]) [[7, 8, 0, 0], [1, 2, 3, 4]]
     = Inr [[6, 6, -3, -4], [0, 0, 0, 0]]"
  by (simp add: standard_scaler_def scale_with_def
      upt_rec [of 0] upt_rec [of 1] upt_rec [of 2] upt_rec [of 3] upt_rec [of 4] eval_nat_numeral)

lemma scaler_example3:
  "fit_transform standard_scaler [[1, 2], [3, 2]] = Inr (([2, 2], [1, 1]), [[-1, 0], [1, 0]])"
  by (simp add: standard_scaler_def scale_with_def mean_def scale_of_def column_def
      upt_rec [of 0] upt_rec [of 1] upt_rec [of 2] eval_nat_numeral)

lemma bind_io_Inr: "bind_io (out, Inr x) f = (out @ fst (f x), snd (f x))"
  by (simp add: bind_io_def split: prod.splits)

lemma bind_io_Inl: "bind_io (out, Inl e) f = (out, Inl e)"
  by (simp add: bind_io_def)

text \<open>
  Claim C8. The three wrappers run the same \<open>load_data\<close> and print what it prints.
  Called without a scaler, \<open>load_train_data\<close> fits one on the loaded matrix and returns
  the scaled matrix, the labels, the weights and that scaler. \<open>load_eval_data\<close> returns
  the supplied scaler's transform of the loaded matrix and the labels, or the loaded
  matrix itself when no scaler is supplied; it returns no scaler and does not depend on
  the fitting operation. An error of \<open>load_data\<close> is the error of the wrapper.
  \<open>load_test_data\<close> is \<open>load_eval_data\<close>.
\<close>

theorem wrappers_scaler_handling:
  "(load_data fs p d fc lc target_length wc = (out, Inr (X, y, w)) \<longrightarrow>
      fit_transform lib X = Inr (s, X') \<longrightarrow>
      load_train_data lib fs p d fc lc target_length wc None = (out, Inr (X', y, w, s)))
   \<and> (load_data fs p d fc lc target_length ''example_weight'' = (out, Inr (X, y, w)) \<longrightarrow>
        (transform lib s X = Inr X' \<longrightarrow>
           load_eval_data lib fs p d fc lc target_length (Some s) = (out, Inr (X', y)))
        \<and> load_eval_data lib fs p d fc lc target_length None = (out, Inr (X, y)))
   \<and> (load_data fs p d fc lc target_length wc = (out, Inl e) \<longrightarrow>
        load_train_data lib fs p d fc lc target_length wc sc = (out, Inl e))
   \<and> (load_data fs p d fc lc target_length ''example_weight'' = (out, Inl e) \<longrightarrow>
        load_eval_data lib fs p d fc lc target_length sc = (out, Inl e))
   \<and> load_test_data lib fs p d fc lc target_length sc = load_eval_data lib fs p d fc lc target_length sc
   \<and> load_eval_data (lib\<lparr>fit_transform := f\<rparr>) fs p d fc lc target_length sc
       = load_eval_data lib fs p d fc lc target_length sc"
proof -
  have train: "load_data fs p d fc lc target_length wc = (out, Inr (X, y, w)) \<longrightarrow>
      fit_transform lib X = Inr (s, X') \<longrightarrow>
      load_train_data lib fs p d fc lc target_length wc None = (out, Inr (X', y, w, s))"
    by (simp add: load_train_data_def bind_io_Inr lift_io_def return_io_def)
  have eval: "load_data fs p d fc lc target_length ''example_weight'' = (out, Inr (X, y, w)) \<longrightarrow>
        (transform lib s X = Inr X' \<longrightarrow>
           load_eval_data lib fs p d fc lc target_length (Some s) = (out, Inr (X', y)))
        \<and> load_eval_data lib fs p d fc lc target_length None = (out, Inr (X, y))"
    by (simp add: load_eval_data_def bind_io_Inr lift_io_def return_io_def)
  have err1: "load_data fs p d fc lc target_length wc = (out, Inl e) \<longrightarrow>
        load_train_data lib fs p d fc lc target_length wc sc = (out, Inl e)"
    by (simp add: load_train_data_def bind_io_Inl)
  have err2: "load_data fs p d fc lc target_length ''example_weight'' = (out, Inl e) \<longrightarrow>
        load_eval_data lib fs p d fc lc target_length sc = (out, Inl e)"
    by (simp add: load_eval_data_def bind_io_Inl)
  have test: "load_test_data lib fs p d fc lc target_length sc = load_eval_data lib fs p d fc lc target_length sc"
    by (simp add: load_test_data_def load_eval_data_def)
  have nofit: "load_eval_data (lib\<lparr>fit_transform := f\<rparr>) fs p d fc lc target_length sc
       = load_eval_data lib fs p d fc lc target_length sc"
    by (simp add: load_eval_data_def cong: option.case_cong)
  show ?thesis using train eval err1 err2 test nofit by blast
qed

lemma load_train_example:
  "load_data example_fs ''data/metadata/train_downsample.csv'' ''data/downsampled_features''
     ''contextual_feature_file'' ''class'' (Some 2) ''example_weight''
   = ([''Warning: data/downsampled_features/gone.npy does not exist and will be skipped.''],
      Inr ([[1, 2, 3, 4]], [Num 1], [Num 2]))"
  by (simp add: example_defs loader_defs io_defs)

lemma load_eval_example:
  "load_data example_fs ''data/metadata/eval_downsample.csv'' ''data/downsampled_features''
     ''contextual_feature_file'' ''class'' (Some 2) ''example_weight''
   = ([default_weight_warning,
       ''Warning: data/downsampled_features/gone.npy does not exist and will be skipped.''],
      Inr ([[7, 8, 0, 0], [1, 2, 3, 4]], [Num 0, Num 1], [Num 1, Num 1]))"
  by (simp add: example_defs loader_defs io_defs numeral_2_eq_2)


theorem wrappers_scaler_handling_witness:
  "load_train_data standard_scaler example_fs ''data/metadata/train_downsample.csv''
      ''data/downsampled_features'' ''contextual_feature_file'' ''class'' (Some 2)
      ''example_weight'' None
    = ([''Warning: data/downsampled_features/gone.npy does not exist and will be skipped.''],
       Inr ([[0, 0, 0, 0]], [Num 1], [Num 2], ([1, 2, 3, 4], [1, 1, 1, 1])))
   \<and> load_eval_data standard_scaler example_fs ''data/metadata/eval_downsample.csv''
      ''data/downsampled_features'' ''contextual_feature_file'' ''class'' (Some 2)
      (Some ([1, 2, 3, 4], [1, 1, 1, 1]))
    = ([default_weight_warning,
        ''Warning: data/downsampled_features/gone.npy does not exist and will be skipped.''],
       Inr ([[6, 6, -3, -4], [0, 0, 0, 0]], [Num 0, Num 1]))
   \<and> load_eval_data standard_scaler example_fs ''data/metadata/eval_downsample.csv''
      ''data/downsampled_features'' ''contextual_feature_file'' ''class'' (Some 2) None
    = ([default_weight_warning,
        ''Warning: data/downsampled_features/gone.npy does not exist and will be skipped.''],
       Inr ([[7, 8, 0, 0], [1, 2, 3, 4]], [Num 0, Num 1]))"
  using wrappers_scaler_handling [where lib = standard_scaler and fs = example_fs
      and p = "''data/metadata/train_downsample.csv''" and d = "''data/downsampled_features''"
      and fc = "''contextual_feature_file''" and lc = "''class''" and target_length = "Some 2"
      and wc = "''example_weight''"
      and out = "[''Warning: data/downsampled_features/gone.npy does not exist and will be skipped.'']"
      and X = "[[1, 2, 3, 4]]" and y = "[Num 1]" and w = "[Num 2]"
      and s = "([1, 2, 3, 4], [1, 1, 1, 1])" and X' = "[[0, 0, 0, 0]]"]
    wrappers_scaler_handling [where lib = standard_scaler and fs = example_fs
      and p = "''data/metadata/eval_downsample.csv''" and d = "''data/downsampled_features''"
      and fc = "''contextual_feature_file''" and lc = "''class''" and target_length = "Some 2"
      and out = "[default_weight_warning,
        ''Warning: data/downsampled_features/gone.npy does not exist and will be skipped.'']"
      and X = "[[7, 8, 0, 0], [1, 2, 3, 4]]" and y = "[Num 0, Num 1]" and w = "[Num 1, Num 1]"
      and s = "([1, 2, 3, 4], [1, 1, 1, 1])" and X' = "[[6, 6, -3, -4], [0, 0, 0, 0]]"]
    load_train_example load_eval_example scaler_example scaler_example2
  by blast

text \<open>
  Claim C10. Called with a scaler, \<open>load_train_data\<close> returns the matrix, labels and
  weights of \<open>load_data\<close> as they are, together with the supplied scaler; the result
  does not depend on the scaler operations, so nothing is fitted or transformed.
\<close>

theorem load_train_data_given_scaler:
  "(load_data fs p d fc lc target_length wc = (out, Inr (X, y, w)) \<longrightarrow>
      load_train_data lib fs p d fc lc target_length wc (Some s) = (out, Inr (X, y, w, s)))
   \<and> load_train_data lib' fs p d fc lc target_length wc (Some s)
       = load_train_data lib fs p d fc lc target_length wc (Some s)"
  by (simp add: load_train_data_def bind_io_Inr return_io_def)

theorem load_train_data_given_scaler_witness:
  "load_train_data standard_scaler example_fs ''data/metadata/train_downsample.csv''
      ''data/downsampled_features'' ''contextual_feature_file'' ''class'' (Some 2)
      ''example_weight'' (Some ([0, 0, 0, 0], [2, 2, 2, 2]))
    = ([''Warning: data/downsampled_features/gone.npy does not exist and will be skipped.''],
       Inr ([[1, 2, 3, 4]], [Num 1], [Num 2], ([0, 0, 0, 0], [2, 2, 2, 2])))"
  using load_train_data_given_scaler [where lib = standard_scaler and fs = example_fs
      and p = "''data/metadata/train_downsample.csv''" and d = "''data/downsampled_features''"
      and fc = "''contextual_feature_file''" and lc = "''class''" and target_length = "Some 2"
      and wc = "''example_weight''"
      and out = "[''Warning: data/downsampled_features/gone.npy does not exist and will be skipped.'']"
      and X = "[[1, 2, 3, 4]]" and y = "[Num 1]" and w = "[Num 2]"
      and s = "([0, 0, 0, 0], [2, 2, 2, 2])"]
    load_train_example
  by blast

section \<open>The decision threshold\<close>

text \<open>
  Claim C2. When \<open>predict_proba\<close> returns a table with a column 1, the metrics of
  \<open>evaluate_model_with_threshold\<close> are computed on one prediction per sample, which is
  1 exactly when the sample's score in column 1 is strictly greater than the threshold
  and 0 otherwise, so also when the score equals the threshold: a score of 0.1 at
  threshold 0.1 gives 0.
\<close>

theorem evaluate_threshold_strict:
  assumes "predict_proba lib model X_eval = Inr proba" and "1 < ncols proba"
  shows "evaluate_model_with_threshold lib model X_eval y_eval threshold
           = score_predictions lib y_eval (apply_threshold (positive_scores proba) threshold)
       \<and> length (apply_threshold (positive_scores proba) threshold) = length (arows proba)
       \<and> (\<forall>i < length (arows proba).
             (apply_threshold (positive_scores proba) threshold ! i = 1
                \<longleftrightarrow> positive_scores proba ! i > threshold)
           \<and> (apply_threshold (positive_scores proba) threshold ! i = 0
                \<longleftrightarrow> \<not> positive_scores proba ! i > threshold))
       \<and> apply_threshold [1 / 10] (1 / 10) = [0]"
proof -
  have run: "evaluate_model_with_threshold lib model X_eval y_eval threshold
           = score_predictions lib y_eval (apply_threshold (positive_scores proba) threshold)"
    using assms
    by (simp add: evaluate_model_with_threshold_def column_1_def positive_scores_def
        lift_io_def return_io_def)
  have len: "length (apply_threshold (positive_scores proba) threshold) = length (arows proba)"
    by (simp add: apply_threshold_def positive_scores_def)
  have each: "\<forall>i < length (arows proba).
             (apply_threshold (positive_scores proba) threshold ! i = 1
                \<longleftrightarrow> positive_scores proba ! i > threshold)
           \<and> (apply_threshold (positive_scores proba) threshold ! i = 0
                \<longleftrightarrow> \<not> positive_scores proba ! i > threshold)"
    by (simp add: apply_threshold_def positive_scores_def)
  have tenth: "apply_threshold [1 / 10] (1 / 10) = [0]"
    by (simp add: apply_threshold_def)
  show ?thesis using run len each tenth by blast
qed

theorem evaluate_threshold_strict_witness:
  "evaluate_model_with_threshold table_model example_proba [[0], [0], [0]]
       [Num 1, Num 1, Num 0] (1 / 10)
     = ([], Inr (1 / 3, 1 / 2, 1 / 2, 1 / 2))
   \<and> apply_threshold (positive_scores example_proba) (1 / 10) = [0, 1, 1]"
proof -
  have a: "predict_proba table_model example_proba [[0], [0], [0]] = Inr example_proba"
    by (simp add: table_model_def Let_def)
  have b: "1 < ncols example_proba"
    by (simp add: example_proba_def)
  have c: "apply_threshold (positive_scores example_proba) (1 / 10) = [0, 1, 1]"
    by (simp add: apply_threshold_def positive_scores_def example_proba_def)
  have d: "score_predictions table_model [Num 1, Num 1, Num 0] [0, 1, 1]
      = ([], Inr (1 / 3, 1 / 2, 1 / 2, 1 / 2))"
    by (simp add: score_predictions_def table_model_def Let_def count_where_def ratio_def lift_io_def
        return_io_def)
  show ?thesis
    using evaluate_threshold_strict [OF a b, of "[Num 1, Num 1, Num 0]" "1 / 10"] c d
    by simp
qed

section \<open>The feature importance file\<close>

lemma argsort_stable_ok: "argsort_ok argsort_stable xs"
  by (simp add: argsort_ok_def argsort_stable_def)

lemma feature_importance_map:
  "feature_importance importances indices = map (\<lambda>i. (i, importances ! i)) indices"
  unfolding feature_importance_def by (rule nth_equalityI) simp_all

lemma feature_ranking_nth:
  "f < length indices \<Longrightarrow>
     feature_ranking importances indices ! f = (f + 1, feature_importance importances indices ! f)"
  by (simp add: feature_ranking_def feature_importance_def)

lemma argsort_ok_length: "argsort_ok argsort xs \<Longrightarrow> length (argsort xs) = length xs"
  by (metis argsort_ok_def size_mset length_upt diff_zero)

lemma argsort_ok_set: "argsort_ok argsort xs \<Longrightarrow> set (argsort xs) = {0..<length xs}"
  by (metis argsort_ok_def set_mset_mset set_upt)

lemma argsort_ok_distinct: "argsort_ok argsort xs \<Longrightarrow> distinct (argsort xs)"
  by (metis argsort_ok_def distinct_upt mset_eq_imp_distinct_iff)

lemma non_increasing_rev:
  "sorted (map f xs) \<Longrightarrow> sorted_wrt (\<lambda>a b. b \<le> a) (map f (rev xs))"
  by (simp only: rev_map [symmetric] sorted_wrt_rev)

lemma non_increasing_take:
  "sorted (map f xs) \<Longrightarrow> non_increasing (map f (take n (rev xs)))"
  unfolding non_increasing_def take_map [symmetric]
  by (rule sorted_wrt_take) (rule non_increasing_rev)

lemma take_dominates_drop:
  assumes "sorted (map f xs)" and "a \<in> set (take n (rev xs))" and "b \<in> set (drop n (rev xs))"
  shows "f b \<le> f a"
proof -
  have "sorted_wrt (\<lambda>a b. b \<le> a) (map f (take n (rev xs)) @ map f (drop n (rev xs)))"
    using non_increasing_rev [OF assms(1)]
    by (simp add: map_append [symmetric] del: map_append)
  then show ?thesis
    using assms(2,3) by (auto simp: sorted_wrt_append)
qed

lemma argsort_stable_example1: "argsort_stable [1, 0, 0] = [1, 2, 0]"
  by (simp add: argsort_stable_def upt_rec [of 0] upt_rec [of 1] upt_rec [of 2] upt_rec [of 3]
      eval_nat_numeral)

lemma argsort_stable_example2: "argsort_stable [1 / 5, 1 / 2, 3 / 10] = [0, 2, 1]"
  by (simp add: argsort_stable_def upt_rec [of 0] upt_rec [of 1] upt_rec [of 2] upt_rec [of 3]
      eval_nat_numeral)

text \<open>
  On the importances 1, 0, 0 the file has three rows, each a feature index and its
  importance, and two of them have the same importance.
\<close>

theorem feature_importance_csv_not_strict:
  "feature_importance_csv argsort_stable [1, 0, 0]
      = (''Feature,Importance'', [(0, 1), (2, 0), (1, 0)])
   \<and> \<not> strictly_decreasing (map snd (snd (feature_importance_csv argsort_stable [1, 0, 0])))
   \<and> length (snd (feature_importance_csv argsort_stable [1, 0, 0])) \<noteq> 20"
  by (simp add: feature_importance_csv_def feature_importance_map top_indices_def
      argsort_stable_example1 strictly_decreasing_def)

text \<open>
  Claim C9. With an \<open>argsort\<close> that meets its contract, the file has the header
  \<open>Feature,Importance\<close> and one row for each of the first 20 indices of the descending
  order, so 20 rows or as many as there are features: the feature index and its
  importance. The indices are distinct, the importances do not increase down the rows,
  and no feature left out has a greater importance than a feature written. The rank is
  the position of the row: it is part of the printed ranking, not of the file.
\<close>

theorem feature_importance_csv_rows:
  assumes "argsort_ok argsort importances"
  shows "fst (feature_importance_csv argsort importances) = ''Feature,Importance''
     \<and> snd (feature_importance_csv argsort importances)
         = map (\<lambda>i. (i, importances ! i)) (top_indices argsort importances)
     \<and> length (snd (feature_importance_csv argsort importances)) = min 20 (length importances)
     \<and> distinct (top_indices argsort importances)
     \<and> (\<forall>i \<in> set (top_indices argsort importances). i < length importances)
     \<and> non_increasing (map snd (snd (feature_importance_csv argsort importances)))
     \<and> (\<forall>j < length importances. j \<notin> set (top_indices argsort importances) \<longrightarrow>
           (\<forall>i \<in> set (top_indices argsort importances). importances ! j \<le> importances ! i))
     \<and> (\<forall>f < length (top_indices argsort importances).
           feature_ranking importances (top_indices argsort importances) ! f
             = (f + 1, snd (feature_importance_csv argsort importances) ! f))"
proof -
  let ?idx = "argsort importances"
  let ?top = "top_indices argsort importances"
  have sorted: "sorted (map (\<lambda>i. importances ! i) ?idx)"
    using assms by (simp add: argsort_ok_def)
  have header: "fst (feature_importance_csv argsort importances) = ''Feature,Importance''"
    by (simp add: feature_importance_csv_def)
  have rows: "snd (feature_importance_csv argsort importances)
         = map (\<lambda>i. (i, importances ! i)) ?top"
    by (simp add: feature_importance_csv_def feature_importance_map)
  have len: "length (snd (feature_importance_csv argsort importances))
         = min 20 (length importances)"
    by (simp add: rows top_indices_def argsort_ok_length [OF assms] min.commute)
  have dist: "distinct ?top"
    by (simp add: top_indices_def argsort_ok_distinct [OF assms])
  have bound: "\<forall>i \<in> set ?top. i < length importances"
  proof
    fix i assume "i \<in> set ?top"
    then have "i \<in> set (rev ?idx)"
      unfolding top_indices_def by (rule in_set_takeD)
    then show "i < length importances"
      by (simp add: argsort_ok_set [OF assms])
  qed
  have order: "non_increasing (map snd (snd (feature_importance_csv argsort importances)))"
    using non_increasing_take [OF sorted, of 20]
    by (simp add: rows top_indices_def comp_def)
  have top: "\<forall>j < length importances. j \<notin> set ?top \<longrightarrow>
           (\<forall>i \<in> set ?top. importances ! j \<le> importances ! i)"
  proof (intro allI impI ballI)
    fix j i
    assume j: "j < length importances" and out: "j \<notin> set ?top" and i: "i \<in> set ?top"
    have "j \<in> set (rev ?idx)"
      using j by (simp add: argsort_ok_set [OF assms])
    moreover have "set (rev ?idx) = set (take 20 (rev ?idx)) \<union> set (drop 20 (rev ?idx))"
      by (simp only: set_append [symmetric] append_take_drop_id)
    ultimately have "j \<in> set (drop 20 (rev ?idx))"
      using out unfolding top_indices_def by blast
    then show "importances ! j \<le> importances ! i"
      using take_dominates_drop [OF sorted, of i 20 j] i by (simp add: top_indices_def)
  qed
  have rank: "\<forall>f < length ?top.
           feature_ranking importances ?top ! f
             = (f + 1, snd (feature_importance_csv argsort importances) ! f)"
    by (simp add: feature_ranking_nth feature_importance_csv_def)
  show ?thesis using header rows len dist bound order top rank by blast
qed

theorem feature_importance_csv_rows_witness:
  "argsort_ok argsort_stable [1 / 5, 1 / 2, 3 / 10]
   \<and> feature_importance_csv argsort_stable [1 / 5, 1 / 2, 3 / 10]
      = (''Feature,Importance'', [(1, 1 / 2), (2, 3 / 10), (0, 1 / 5)])
   \<and> non_increasing [1 / 2, 3 / 10, 1 / (5 :: real)]
   \<and> feature_ranking [1 / 5, 1 / 2, 3 / 10] (top_indices argsort_stable [1 / 5, 1 / 2, 3 / 10])
      = [(1, 1, 1 / 2), (2, 2, 3 / 10), (3, 0, 1 / 5)]"
proof -
  have a: "argsort_ok argsort_stable [1 / 5, 1 / 2, 3 / 10]"
    by (rule argsort_stable_ok)
  have t: "top_indices argsort_stable [1 / 5, 1 / 2, 3 / 10] = [1, 2, 0]"
    by (simp add: top_indices_def argsort_stable_example2)
  have r: "feature_ranking [1 / 5, 1 / 2, 3 / 10] [1, 2, 0]
      = [(1, 1, 1 / 2), (2, 2, 3 / 10), (3, 0, 1 / 5)]"
    by (simp add: feature_ranking_def upt_rec [of 0] upt_rec [of 1] upt_rec [of 2]
        upt_rec [of 3] eval_nat_numeral)
  show ?thesis
    using feature_importance_csv_rows [OF a] a r
    unfolding t
    by (cases "feature_importance_csv argsort_stable [1 / 5, 1 / 2, 3 / 10]") simp
qed

section \<open>The target length of the main pipeline\<close>

lemma str_nat_1: "str_nat (Suc 0) = ''1''"
  by (simp add: str_nat.simps [of "Suc 0"])

lemma main_target_length_example:
  "main_target_length example_fs
     = ([''Using target length of 1 based on maximum sequence length in training data.''],
        Inr 1)"
  by (simp add: main_target_length_def example_defs loader_defs io_defs str_nat_1)

lemma train_manifest_length_example:
  "get_max_sequence_length example_fs ''data/metadata/train_downsample.csv''
       ''data/downsampled_features'' ''contextual_feature_file''
     = ([''Warning: data/downsampled_features/gone.npy does not exist and will be skipped.''],
        Inr 3)"
  by (simp add: example_defs loader_defs io_defs)

lemma load_train_example1:
  "load_data example_fs ''data/metadata/train_downsample.csv'' ''data/downsampled_features''
     ''contextual_feature_file'' ''class'' (Some 1) ''example_weight''
   = ([''Warning: data/downsampled_features/gone.npy does not exist and will be skipped.''],
      Inr ([[1, 2]], [Num 1], [Num 2]))"
  by (simp add: example_defs loader_defs io_defs)

lemma load_eval_example1:
  "load_data example_fs ''data/metadata/eval_downsample.csv'' ''data/downsampled_features''
     ''contextual_feature_file'' ''class'' (Some 1) ''example_weight''
   = ([default_weight_warning,
       ''Warning: data/downsampled_features/gone.npy does not exist and will be skipped.''],
      Inr ([[7, 8], [1, 2]], [Num 0, Num 1], [Num 1, Num 1]))"
  by (simp add: example_defs loader_defs io_defs)

lemma scaler_example4:
  "fit_transform standard_scaler [[1, 2]] = Inr (([1, 2], [1, 1]), [[0, 0]])"
  by (simp add: standard_scaler_def scale_with_def mean_def scale_of_def column_def
      upt_rec [of 0] upt_rec [of 1] upt_rec [of 2] eval_nat_numeral)

lemma scaler_example5:
  "transform standard_scaler ([1, 2], [1, 1]) [[7, 8], [1, 2]] = Inr [[6, 6], [0, 0]]"
  by (simp add: standard_scaler_def scale_with_def
      upt_rec [of 0] upt_rec [of 1] upt_rec [of 2] eval_nat_numeral)

text \<open>
  Claim C4. \<open>main\<close> takes the target length from
  \<open>data/metadata/label_downsampled.csv\<close> and its column \<open>feature_file\<close>, and loads the
  training set from \<open>data/metadata/train_downsample.csv\<close> and its column
  \<open>contextual_feature_file\<close>. Where the first manifest names an array of one row and the
  training manifest an array of three rows, the target length is 1, announced as the
  maximum sequence length in the training data, while that maximum is 3; the one
  integer goes to both loaders, and the training array is cut to its first row.
\<close>

theorem main_target_length_not_from_training_manifest:
  "main_target_length example_fs
     = ([''Using target length of 1 based on maximum sequence length in training data.''],
        Inr 1)
   \<and> get_max_sequence_length example_fs ''data/metadata/train_downsample.csv''
       ''data/downsampled_features'' ''contextual_feature_file''
     = ([''Warning: data/downsampled_features/gone.npy does not exist and will be skipped.''],
        Inr 3)
   \<and> main_load standard_scaler example_fs
     = ([''Using target length of 1 based on maximum sequence length in training data.'',
         ''Warning: data/downsampled_features/gone.npy does not exist and will be skipped.'',
         default_weight_warning,
         ''Warning: data/downsampled_features/gone.npy does not exist and will be skipped.''],
        Inr (1, [[0, 0]], [Num 1], [Num 2], ([1, 2], [1, 1]), [[6, 6], [0, 0]], [Num 0, Num 1]))"
proof -
  have train: "load_train_data standard_scaler example_fs ''data/metadata/train_downsample.csv''
      ''data/downsampled_features'' ''contextual_feature_file'' ''class'' (Some 1)
      ''example_weight'' None
    = ([''Warning: data/downsampled_features/gone.npy does not exist and will be skipped.''],
       Inr ([[0, 0]], [Num 1], [Num 2], ([1, 2], [1, 1])))"
    by (simp add: load_train_data_def load_train_example1 scaler_example4 bind_io_Inr
        lift_io_def return_io_def)
  have eval: "load_eval_data standard_scaler example_fs ''data/metadata/eval_downsample.csv''
      ''data/downsampled_features'' ''contextual_feature_file'' ''class'' (Some 1)
      (Some ([1, 2], [1, 1]))
    = ([default_weight_warning,
        ''Warning: data/downsampled_features/gone.npy does not exist and will be skipped.''],
       Inr ([[6, 6], [0, 0]], [Num 0, Num 1]))"
    by (simp add: load_eval_data_def load_eval_example1 scaler_example5 bind_io_Inr
        lift_io_def return_io_def)
  have main: "main_load standard_scaler example_fs
     = ([''Using target length of 1 based on maximum sequence length in training data.'',
         ''Warning: data/downsampled_features/gone.npy does not exist and will be skipped.'',
         default_weight_warning,
         ''Warning: data/downsampled_features/gone.npy does not exist and will be skipped.''],
        Inr (1, [[0, 0]], [Num 1], [Num 2], ([1, 2], [1, 1]), [[6, 6], [0, 0]], [Num 0, Num 1]))"
    by (simp add: main_load_def main_target_length_example train eval bind_io_Inr return_io_def)
  show ?thesis
    using main_target_length_example train_manifest_length_example main by simp
qed

end
